theory Spec2Isabelle
  imports Complex_Main
begin

section \<open>Turtle adventure: the data model\<close>

text \<open>
  The embedding follows \<^verbatim>\<open>turtle_adventure.py\<close>. Python floats are idealised as
  real numbers: \<^verbatim>\<open>+\<close>, \<^verbatim>\<open>*\<close>, \<^verbatim>\<open>**2\<close> and \<^verbatim>\<open>sqrt\<close> are exact, and a true
  division \<^verbatim>\<open>a / b\<close> raises \<^verbatim>\<open>ZeroDivisionError\<close> when \<^verbatim>\<open>b\<close> is zero.
  Python integers are \<^typ>\<open>int\<close>. An update method mutates objects and may raise, so
  it returns an outcome: the state it leaves behind, tagged with the exception when one
  was raised.
\<close>

datatype error = ZeroDivisionError | RecursionError | IndexError

datatype 'a outcome = Returned 'a | Raised error 'a

fun final :: "'a outcome \<Rightarrow> 'a" where
  "final (Returned s) = s"
| "final (Raised e s) = s"

text \<open>
  Modelled from the spec: \<^verbatim>\<open>gamelib.GameElement\<close>, the base class of every element,
  is not part of the source file. The specification gives every entity a position, a
  pair of floating-point coordinates, which is all the subclasses use of it.
\<close>

record GameElement =
  x_pos :: real
  y_pos :: real

record Waypoint = GameElement +
  is_active :: bool

record Home = GameElement +
  home_size :: int

text \<open>
  The player draws itself with a \<^verbatim>\<open>RawTurtle\<close> of Python's standard library and reads
  its own position from it. The turtle keeps a position and an orientation, the unit
  vector of its heading.
\<close>

record RawTurtle =
  xcor :: real
  ycor :: real
  orient :: "real \<times> real"

record Player =
  player_speed :: real
  turtle :: RawTurtle

record Enemy = GameElement +
  enemy_size :: int
  color :: string
  enemy_speed :: real

record RandomWalkEnemy = Enemy +
  tarx :: real
  tary :: real

record FencingEnemy = Enemy +
  tar_corner :: int
  dir :: bool
  radius :: int

text \<open>The enemy collection holds instances of the four concrete classes.\<close>

datatype any_enemy =
    RandomWalk RandomWalkEnemy
  | Chasing Enemy
  | Fencing FencingEnemy
  | Demo Enemy

record EnemyGenerator =
  generator_level :: int

text \<open>
  The two callables the game hands to \<^verbatim>\<open>after\<close>: the generator's bound method
  \<^verbatim>\<open>create_enemy\<close>, and the lambda of \<^verbatim>\<open>game_over_win\<close> that removes the message
  and calls \<^verbatim>\<open>new_game\<close>.
\<close>

datatype callback = CreateEnemy | WinMessageDone

text \<open>
  Modelled from the spec: \<^verbatim>\<open>gamelib.Game\<close>, the base class of the session, is not part
  of the source file. Of it the model keeps what the specification names: whether the
  per-frame loop is running (\<^verbatim>\<open>start\<close> begins it, \<^verbatim>\<open>stop\<close> halts it), the scheduler's
  pending one-shot callbacks with their delays in milliseconds (\<^verbatim>\<open>after\<close>), and the
  messages drawn on the canvas. The screen's width and height are sizes of the canvas
  in pixels, natural numbers.
\<close>

record TurtleAdventureGame =
  level :: int
  screen_width :: nat
  screen_height :: nat
  waypoint :: Waypoint
  player :: Player
  home :: Home
  enemies :: "any_enemy list"
  enemy_generator :: EnemyGenerator
  is_running :: bool
  scheduled :: "(int \<times> callback) list"
  texts :: "string list"

section \<open>Waypoint and Home\<close>

definition Waypoint_update :: "real \<Rightarrow> Waypoint \<Rightarrow> Waypoint" where
  "Waypoint_update delta_time w = w"

definition activate :: "real \<Rightarrow> real \<Rightarrow> Waypoint \<Rightarrow> Waypoint" where
  "activate x y w = w\<lparr>is_active := True, x_pos := x, y_pos := y\<rparr>"

definition deactivate :: "Waypoint \<Rightarrow> Waypoint" where
  "deactivate w = w\<lparr>is_active := False\<rparr>"

definition Home_update :: "real \<Rightarrow> Home \<Rightarrow> Home" where
  "Home_update delta_time h = h"

definition contains :: "Home \<Rightarrow> real \<Rightarrow> real \<Rightarrow> bool" where
  "contains h x y =
     (let x1 = x_pos h - real_of_int (home_size h) / 2;
          x2 = x_pos h + real_of_int (home_size h) / 2;
          y1 = y_pos h - real_of_int (home_size h) / 2;
          y2 = y_pos h + real_of_int (home_size h) / 2
      in x1 \<le> x \<and> x \<le> x2 \<and> y1 \<le> y \<and> y \<le> y2)"

section \<open>Enemy.hits_player\<close>

definition hits_player :: "'a Enemy_scheme \<Rightarrow> TurtleAdventureGame \<Rightarrow> bool" where
  "hits_player e g =
     (let plr = turtle (player g)
      in (x_pos e - xcor plr)\<^sup>2 + (y_pos e - ycor plr)\<^sup>2
           \<le> (real_of_int (enemy_size e) / 2 + 9)\<^sup>2)"

section \<open>The turtle of the player\<close>

text \<open>
  The methods of \<^verbatim>\<open>RawTurtle\<close> that \<^verbatim>\<open>Player\<close> calls, as Python's standard library
  defines them, over the reals. A heading is represented by its unit vector (the turtle's
  own \<^verbatim>\<open>_orient\<close>): \<^verbatim>\<open>towards\<close> gives the direction from the turtle to the point, and
  the direction of angle 0 when the point is the turtle's own position;
  \<^verbatim>\<open>forward\<close> adds the orientation times the distance to the position.
\<close>

definition towards :: "RawTurtle \<Rightarrow> real \<Rightarrow> real \<Rightarrow> real \<times> real" where
  "towards t x y =
     (let dx = x - xcor t; dy = y - ycor t; d = sqrt (dx\<^sup>2 + dy\<^sup>2)
      in if d = 0 then (1, 0) else (dx / d, dy / d))"

definition setheading :: "real \<times> real \<Rightarrow> RawTurtle \<Rightarrow> RawTurtle" where
  "setheading h t = t\<lparr>orient := h\<rparr>"

definition forward :: "real \<Rightarrow> RawTurtle \<Rightarrow> RawTurtle" where
  "forward d t = t\<lparr>xcor := xcor t + fst (orient t) * d, ycor := ycor t + snd (orient t) * d\<rparr>"

definition distance :: "RawTurtle \<Rightarrow> real \<Rightarrow> real \<Rightarrow> real" where
  "distance t x y = sqrt ((x - xcor t)\<^sup>2 + (y - ycor t)\<^sup>2)"

definition setx :: "real \<Rightarrow> RawTurtle \<Rightarrow> RawTurtle" where
  "setx v t = t\<lparr>xcor := v\<rparr>"

definition sety :: "real \<Rightarrow> RawTurtle \<Rightarrow> RawTurtle" where
  "sety v t = t\<lparr>ycor := v\<rparr>"

section \<open>The session's services and the end of a game\<close>

text \<open>
  Modelled from the spec: the methods \<^verbatim>\<open>start\<close>, \<^verbatim>\<open>stop\<close> and \<^verbatim>\<open>after\<close> that the
  session inherits from \<^verbatim>\<open>gamelib.Game\<close>, and the canvas's \<^verbatim>\<open>create_text\<close>, are not
  part of the source file. By the specification \<^verbatim>\<open>start\<close> begins the per-frame loop
  and \<^verbatim>\<open>stop\<close> halts it, \<^verbatim>\<open>after(delay, callback)\<close> adds a delayed one-shot
  callback to the scheduler, and a text drawn on the canvas stays until it is deleted.
\<close>

definition start :: "TurtleAdventureGame \<Rightarrow> TurtleAdventureGame" where
  "start g = g\<lparr>is_running := True\<rparr>"

definition stop :: "TurtleAdventureGame \<Rightarrow> TurtleAdventureGame" where
  "stop g = g\<lparr>is_running := False\<rparr>"

definition after :: "int \<Rightarrow> callback \<Rightarrow> TurtleAdventureGame \<Rightarrow> TurtleAdventureGame" where
  "after delay cb g = g\<lparr>scheduled := scheduled g @ [(delay, cb)]\<rparr>"

definition create_text :: "string \<Rightarrow> TurtleAdventureGame \<Rightarrow> TurtleAdventureGame" where
  "create_text s g = g\<lparr>texts := texts g @ [s]\<rparr>"

definition game_over_win :: "TurtleAdventureGame \<Rightarrow> TurtleAdventureGame" where
  "game_over_win g = after 2000 WinMessageDone (create_text ''You Win'' (stop g))"

definition game_over_lose :: "TurtleAdventureGame \<Rightarrow> TurtleAdventureGame" where
  "game_over_lose g = create_text ''You Lose'' (stop g)"

section \<open>Player.update\<close>

text \<open>
  The home test calls \<^verbatim>\<open>game_over_win\<close> and falls through to the waypoint branch: the
  method has no \<^verbatim>\<open>return\<close> or \<^verbatim>\<open>else\<close> between them. The arrival test reads
  \<^verbatim>\<open>turtle.distance\<close> after \<^verbatim>\<open>turtle.forward\<close> has moved the turtle.
\<close>

definition Player_update :: "real \<Rightarrow> TurtleAdventureGame \<Rightarrow> TurtleAdventureGame" where
  "Player_update delta_time g =
     (let g1 = (if contains (home g) (xcor (turtle (player g))) (ycor (turtle (player g)))
                then game_over_win g else g);
          t = turtle (player g1);
          wp = waypoint g1
      in if is_active wp then
           (let t1 = setheading (towards t (x_pos wp) (y_pos wp)) t;
                delta_dis = player_speed (player g1) * delta_time;
                t2 = forward delta_dis t1;
                g2 = g1\<lparr>player := (player g1)\<lparr>turtle := t2\<rparr>\<rparr>
            in if distance t2 (x_pos wp) (y_pos wp) \<le> delta_dis
               then g2\<lparr>waypoint := deactivate wp\<rparr> else g2)
         else g1)"

section \<open>The enemies' update methods\<close>

text \<open>
  \<^verbatim>\<open>randint(a, b)\<close> and \<^verbatim>\<open>choice(seq)\<close> of Python's \<^verbatim>\<open>random\<close> module, as functions
  of the raw number the generator produces. Every call in the source has \<^verbatim>\<open>a \<le> b\<close>
  and a non-empty sequence.
\<close>

definition randint :: "int \<Rightarrow> int \<Rightarrow> nat \<Rightarrow> int" where
  "randint a b r = a + int r mod (b - a + 1)"

definition choice :: "'a list \<Rightarrow> nat \<Rightarrow> 'a" where
  "choice xs r = xs ! (r mod length xs)"

text \<open>Indexing a tuple with an integer: negative indices count from the end.\<close>

definition tuple_get :: "'a list \<Rightarrow> int \<Rightarrow> error + 'a" where
  "tuple_get xs i =
     (if 0 \<le> i \<and> i < int (length xs) then Inr (xs ! nat i)
      else if i < 0 \<and> - int (length xs) \<le> i then Inr (xs ! nat (int (length xs) + i))
      else Inl IndexError)"

text \<open>
  The recursive methods take the number of further nested calls that the interpreter's
  recursion limit still allows, and the raw random numbers of the re-targeting at each
  depth. The new target is assigned before the nested call is attempted.
\<close>

fun RandomWalkEnemy_update ::
  "nat \<Rightarrow> (nat \<Rightarrow> nat \<times> nat) \<Rightarrow> real \<Rightarrow> RandomWalkEnemy \<Rightarrow> TurtleAdventureGame
     \<Rightarrow> (RandomWalkEnemy \<times> TurtleAdventureGame) outcome" where
  "RandomWalkEnemy_update depth rnd delta_time e g =
     (let dif_x = tarx e - x_pos e;
          dif_y = tary e - y_pos e;
          dist_sq = dif_x\<^sup>2 + dif_y\<^sup>2
      in if dist_sq < delta_time * (enemy_speed e)\<^sup>2 then
           (let e' = e\<lparr>tarx := real_of_int (randint 0 (int (screen_width g)) (fst (rnd depth))),
                       tary := real_of_int (randint 0 (int (screen_height g)) (snd (rnd depth)))\<rparr>
            in case depth of
                 0 \<Rightarrow> Raised RecursionError (e', g)
               | Suc m \<Rightarrow> RandomWalkEnemy_update m rnd delta_time e' g)
         else
           (let dist = sqrt dist_sq
            in if dist = 0 then Raised ZeroDivisionError (e, g)
               else
                 (let e1 = e\<lparr>x_pos := x_pos e + (dif_x / dist) * delta_time * enemy_speed e\<rparr>;
                      e2 = e1\<lparr>y_pos := y_pos e1 + (dif_y / dist) * delta_time * enemy_speed e1\<rparr>
                  in if hits_player e2 g then Returned (e2, game_over_lose g)
                     else Returned (e2, g))))"

definition ChasingEnemy_update ::
  "real \<Rightarrow> Enemy \<Rightarrow> TurtleAdventureGame \<Rightarrow> (Enemy \<times> TurtleAdventureGame) outcome" where
  "ChasingEnemy_update delta_time e g =
     (let plr = turtle (player g);
          dif_x = xcor plr - x_pos e;
          dif_y = ycor plr - y_pos e;
          dist = sqrt (dif_x\<^sup>2 + dif_y\<^sup>2)
      in if dist = 0 then Raised ZeroDivisionError (e, g)
         else
           (let e1 = e\<lparr>x_pos := x_pos e + (dif_x / dist) * delta_time * enemy_speed e\<rparr>;
                e2 = e1\<lparr>y_pos := y_pos e1 + (dif_y / dist) * delta_time * enemy_speed e1\<rparr>
            in if hits_player e2 g then Returned (e2, game_over_lose g)
               else Returned (e2, g)))"

text \<open>The point a fencing enemy heads for: a corner of the square of half-width
  \<^verbatim>\<open>radius\<close> around Home, selected by \<^verbatim>\<open>tar_corner\<close>.\<close>

definition corner_target :: "FencingEnemy \<Rightarrow> TurtleAdventureGame \<Rightarrow> error + real \<times> real" where
  "corner_target e g =
     (case tuple_get [-1, 1, 1, -1] (tar_corner e) of
        Inl err \<Rightarrow> Inl err
      | Inr sx \<Rightarrow>
          (case tuple_get [-1, 1] (tar_corner e div 2) of
             Inl err \<Rightarrow> Inl err
           | Inr sy \<Rightarrow>
               Inr (x_pos (home g) + real_of_int (radius e * sx),
                    y_pos (home g) + real_of_int (radius e * sy))))"

fun FencingEnemy_update ::
  "nat \<Rightarrow> real \<Rightarrow> FencingEnemy \<Rightarrow> TurtleAdventureGame
     \<Rightarrow> (FencingEnemy \<times> TurtleAdventureGame) outcome" where
  "FencingEnemy_update depth delta_time e g =
     (case corner_target e g of
        Inl err \<Rightarrow> Raised err (e, g)
      | Inr (tx, ty) \<Rightarrow>
          (let dif_x = tx - x_pos e;
               dif_y = ty - y_pos e;
               dist_sq = dif_x\<^sup>2 + dif_y\<^sup>2
           in if dist_sq < delta_time * (enemy_speed e)\<^sup>2 then
                (let e' = e\<lparr>tar_corner := (tar_corner e + (if dir e then - 1 else 1)) mod 4\<rparr>
                 in case depth of
                      0 \<Rightarrow> Raised RecursionError (e', g)
                    | Suc m \<Rightarrow> FencingEnemy_update m delta_time e' g)
              else
                (let dist = sqrt dist_sq
                 in if dist = 0 then Raised ZeroDivisionError (e, g)
                    else
                      (let e1 = e\<lparr>x_pos := x_pos e + (dif_x / dist) * delta_time * enemy_speed e\<rparr>;
                           e2 = e1\<lparr>y_pos := y_pos e1 + (dif_y / dist) * delta_time * enemy_speed e1\<rparr>
                       in if hits_player e2 g then Returned (e2, game_over_lose g)
                          else Returned (e2, g)))))"

definition DemoEnemy_update ::
  "real \<Rightarrow> Enemy \<Rightarrow> TurtleAdventureGame \<Rightarrow> (Enemy \<times> TurtleAdventureGame) outcome" where
  "DemoEnemy_update delta_time e g = Returned (e, g)"

text \<open>Dynamic dispatch of \<^verbatim>\<open>update\<close> on the class of the enemy.\<close>

fun as_enemy :: "('a \<Rightarrow> any_enemy) \<Rightarrow> ('a \<times> TurtleAdventureGame) outcome
     \<Rightarrow> (any_enemy \<times> TurtleAdventureGame) outcome" where
  "as_enemy C (Returned (e, g)) = Returned (C e, g)"
| "as_enemy C (Raised err (e, g)) = Raised err (C e, g)"

fun Enemy_update ::
  "nat \<Rightarrow> (nat \<Rightarrow> nat \<times> nat) \<Rightarrow> real \<Rightarrow> any_enemy \<Rightarrow> TurtleAdventureGame
     \<Rightarrow> (any_enemy \<times> TurtleAdventureGame) outcome" where
  "Enemy_update depth rnd dt (RandomWalk e) g =
     as_enemy RandomWalk (RandomWalkEnemy_update depth rnd dt e g)"
| "Enemy_update depth rnd dt (Chasing e) g = as_enemy Chasing (ChasingEnemy_update dt e g)"
| "Enemy_update depth rnd dt (Fencing e) g =
     as_enemy Fencing (FencingEnemy_update depth dt e g)"
| "Enemy_update depth rnd dt (Demo e) g = as_enemy Demo (DemoEnemy_update dt e g)"

fun position :: "any_enemy \<Rightarrow> real \<times> real" where
  "position (RandomWalk e) = (x_pos e, y_pos e)"
| "position (Chasing e) = (x_pos e, y_pos e)"
| "position (Fencing e) = (x_pos e, y_pos e)"
| "position (Demo e) = (x_pos e, y_pos e)"

section \<open>EnemyGenerator\<close>

text \<open>
  The raw random numbers one call of \<^verbatim>\<open>create_enemy\<close> consumes, one field for each call
  of \<^verbatim>\<open>choice\<close> or \<^verbatim>\<open>randint\<close> in the order they are made: the class, the size,
  the colour and the speed; the constructor's position and its class-specific numbers
  (the wander target, or the corner, the direction and the radius); and the three of
  \<^verbatim>\<open>generate_spawnpos\<close>.
\<close>

record draws =
  d_type :: nat
  d_size :: nat
  d_color :: nat
  d_speed :: nat
  d_x :: nat
  d_y :: nat
  d_1 :: nat
  d_2 :: nat
  d_3 :: nat
  d_side :: nat
  d_edge :: nat
  d_along :: nat

datatype enemy_type = RandomWalkEnemy_type | ChasingEnemy_type | FencingEnemy_type

definition ChasingEnemy_init ::
  "TurtleAdventureGame \<Rightarrow> int \<Rightarrow> string \<Rightarrow> real \<Rightarrow> draws \<Rightarrow> Enemy" where
  "ChasingEnemy_init g sz col sp d =
     \<lparr>x_pos = real_of_int (randint 0 (int (screen_width g)) (d_x d)),
      y_pos = real_of_int (randint 0 (int (screen_height g)) (d_y d)),
      enemy_size = sz, color = col, enemy_speed = sp\<rparr>"

definition RandomWalkEnemy_init ::
  "TurtleAdventureGame \<Rightarrow> int \<Rightarrow> string \<Rightarrow> real \<Rightarrow> draws \<Rightarrow> RandomWalkEnemy" where
  "RandomWalkEnemy_init g sz col sp d =
     \<lparr>x_pos = real_of_int (randint 0 (int (screen_width g)) (d_x d)),
      y_pos = real_of_int (randint 0 (int (screen_height g)) (d_y d)),
      enemy_size = sz, color = col, enemy_speed = sp,
      tarx = real_of_int (randint 0 (int (screen_width g)) (d_1 d)),
      tary = real_of_int (randint 0 (int (screen_height g)) (d_2 d))\<rparr>"

definition FencingEnemy_init ::
  "TurtleAdventureGame \<Rightarrow> int \<Rightarrow> string \<Rightarrow> real \<Rightarrow> draws \<Rightarrow> FencingEnemy" where
  "FencingEnemy_init g sz col sp d =
     \<lparr>x_pos = real_of_int (randint 0 (int (screen_width g)) (d_x d)),
      y_pos = real_of_int (randint 0 (int (screen_height g)) (d_y d)),
      enemy_size = sz, color = col, enemy_speed = sp,
      tar_corner = randint 0 3 (d_1 d), dir = choice [True, False] (d_2 d),
      radius = randint 60 100 (d_3 d)\<rparr>"

definition generate_spawnpos :: "TurtleAdventureGame \<Rightarrow> draws \<Rightarrow> int \<times> int" where
  "generate_spawnpos g d =
     (if choice [True, False] (d_side d) then
        (let x = choice [0, int (screen_width g)] (d_edge d)
         in (x, randint 0 (int (screen_height g)) (d_along d)))
      else
        (let y = choice [0, int (screen_height g)] (d_edge d)
         in (randint 0 (int (screen_width g)) (d_along d), y)))"

fun set_position :: "real \<Rightarrow> real \<Rightarrow> any_enemy \<Rightarrow> any_enemy" where
  "set_position x y (RandomWalk e) = RandomWalk (e\<lparr>x_pos := x, y_pos := y\<rparr>)"
| "set_position x y (Chasing e) = Chasing (e\<lparr>x_pos := x, y_pos := y\<rparr>)"
| "set_position x y (Fencing e) = Fencing (e\<lparr>x_pos := x, y_pos := y\<rparr>)"
| "set_position x y (Demo e) = Demo (e\<lparr>x_pos := x, y_pos := y\<rparr>)"

definition add_enemy :: "any_enemy \<Rightarrow> TurtleAdventureGame \<Rightarrow> TurtleAdventureGame" where
  "add_enemy enemy g = g\<lparr>enemies := enemies g @ [enemy]\<rparr>"

text \<open>The enemy that \<^verbatim>\<open>create_enemy\<close> builds below its capacity check.\<close>

definition new_enemy :: "TurtleAdventureGame \<Rightarrow> draws \<Rightarrow> any_enemy" where
  "new_enemy g d =
     (let enemy_type = choice [RandomWalkEnemy_type, ChasingEnemy_type, FencingEnemy_type] (d_type d);
          sz = choice [15, 20, 30] (d_size d);
          col = choice [''red'', ''green'', ''blue''] (d_color d);
          sp = real_of_int (150 + randint 0 30 (d_speed d));
          made = (case enemy_type of
                    RandomWalkEnemy_type \<Rightarrow> RandomWalk (RandomWalkEnemy_init g sz col sp d)
                  | ChasingEnemy_type \<Rightarrow> Chasing (ChasingEnemy_init g sz col sp d)
                  | FencingEnemy_type \<Rightarrow> Fencing (FencingEnemy_init g sz col sp d));
          (x, y) = generate_spawnpos g d
      in set_position (real_of_int x) (real_of_int y) made)"

text \<open>
  \<^verbatim>\<open>int(3000/enemies_to_spawn)\<close> is reached only with a positive divisor, where the
  truncated quotient is the integer quotient.
\<close>

definition create_enemy :: "draws \<Rightarrow> TurtleAdventureGame \<Rightarrow> TurtleAdventureGame" where
  "create_enemy d g =
     (let enemies_to_spawn = 3 * generator_level (enemy_generator g)
      in if int (length (enemies g)) \<ge> enemies_to_spawn then g
         else
           (let delay = 3000 div enemies_to_spawn
            in after delay CreateEnemy (add_enemy (new_enemy g d) g)))"

section \<open>TurtleAdventureGame\<close>

text \<open>The session as the constructor and \<^verbatim>\<open>init_game\<close> leave it.\<close>

definition TurtleAdventureGame_init :: "nat \<Rightarrow> nat \<Rightarrow> int \<Rightarrow> TurtleAdventureGame" where
  "TurtleAdventureGame_init w h lvl =
     \<lparr>level = lvl, screen_width = w, screen_height = h,
      waypoint = \<lparr>x_pos = 0, y_pos = 0, is_active = False\<rparr>,
      player = \<lparr>player_speed = 180, turtle = \<lparr>xcor = 0, ycor = 0, orient = (1, 0)\<rparr>\<rparr>,
      home = \<lparr>x_pos = real_of_int (int w - 100), y_pos = real_of_int (int h div 2),
              home_size = 20\<rparr>,
      enemies = [],
      enemy_generator = \<lparr>generator_level = lvl\<rparr>,
      is_running = False, scheduled = [], texts = []\<rparr>"

definition start_game :: "draws \<Rightarrow> TurtleAdventureGame \<Rightarrow> TurtleAdventureGame" where
  "start_game d g =
     (let g1 = g\<lparr>player := (player g)\<lparr>turtle := setx 50 (turtle (player g))\<rparr>\<rparr>;
          g2 = g1\<lparr>player := (player g1)\<lparr>turtle :=
                 sety (real_of_int (int (screen_height g1) div 2)) (turtle (player g1))\<rparr>\<rparr>
      in create_enemy d (start g2))"

definition new_game :: "draws \<Rightarrow> draws \<Rightarrow> TurtleAdventureGame \<Rightarrow> TurtleAdventureGame" where
  "new_game d1 d2 g =
     (let g1 = g\<lparr>level := level g + 1\<rparr>;
          g2 = g1\<lparr>enemy_generator := (enemy_generator g1)\<lparr>generator_level := level g1\<rparr>\<rparr>;
          g3 = g2\<lparr>enemies := []\<rparr>
      in start_game d2 (create_enemy d1 g3))"

section \<open>The session as a transition system\<close>

text \<open>
  What can happen to a session: a click on the canvas activates the waypoint; the
  program calls \<^verbatim>\<open>start_game\<close>; the frame loop updates the player or the enemy at an
  index of the collection; the scheduler fires the pending callback at an index of its
  queue. Every order of these events is allowed, which covers each order the frame loop
  and the scheduler produce.
\<close>

datatype event =
    Click real real
  | StartGame draws
  | PlayerFrame real
  | EnemyFrame nat nat "nat \<Rightarrow> nat \<times> nat" real
  | Timer nat draws draws

definition run_callback ::
  "callback \<Rightarrow> draws \<Rightarrow> draws \<Rightarrow> TurtleAdventureGame \<Rightarrow> TurtleAdventureGame" where
  "run_callback cb d1 d2 g =
     (case cb of
        CreateEnemy \<Rightarrow> create_enemy d1 g
      | WinMessageDone \<Rightarrow> new_game d1 d2 (g\<lparr>texts := remove1 ''You Win'' (texts g)\<rparr>))"

fun handle :: "event \<Rightarrow> TurtleAdventureGame \<Rightarrow> TurtleAdventureGame" where
  "handle (Click x y) g = g\<lparr>waypoint := activate x y (waypoint g)\<rparr>"
| "handle (StartGame d) g = start_game d g"
| "handle (PlayerFrame dt) g = Player_update dt g"
| "handle (EnemyFrame i depth rnd dt) g =
     (if i < length (enemies g) then
        (case final (Enemy_update depth rnd dt (enemies g ! i) g) of
           (e', g') \<Rightarrow> g'\<lparr>enemies := (enemies g')[i := e']\<rparr>)
      else g)"
| "handle (Timer k d1 d2) g =
     (if k < length (scheduled g) then
        run_callback (snd (scheduled g ! k)) d1 d2
          (g\<lparr>scheduled := take k (scheduled g) @ drop (Suc k) (scheduled g)\<rparr>)
      else g)"

inductive reachable :: "nat \<Rightarrow> nat \<Rightarrow> int \<Rightarrow> TurtleAdventureGame \<Rightarrow> bool" where
  constructed: "reachable w h lvl (TurtleAdventureGame_init w h lvl)"
| handled: "reachable w h lvl g \<Longrightarrow> reachable w h lvl (handle ev g)"

section \<open>The session invariant and the scenarios\<close>

text \<open>
  What holds of every state of a session constructed at level \<^verbatim>\<open>lvl\<close>: the level has
  not decreased, the generator's level mirrors the session's, and the enemy collection
  is within the capacity \<^verbatim>\<open>3 * level\<close>.
\<close>

definition session_invariant :: "int \<Rightarrow> TurtleAdventureGame \<Rightarrow> bool" where
  "session_invariant lvl g =
     (lvl \<le> level g \<and> generator_level (enemy_generator g) = level g \<and>
      int (length (enemies g)) \<le> 3 * level g)"

text \<open>Fixed random numbers for the scenarios.\<close>

definition no_draws :: draws where
  "no_draws = \<lparr>d_type = 0, d_size = 0, d_color = 0, d_speed = 0, d_x = 0, d_y = 0,
      d_1 = 0, d_2 = 0, d_3 = 0, d_side = 0, d_edge = 0, d_along = 0\<rparr>"

text \<open>The scenario of the specification: the waypoint active at (100, 100), the player
  at (0, 100) with speed 180, on a screen of 800 by 500.\<close>

definition waypoint_scenario :: TurtleAdventureGame where
  "waypoint_scenario =
     (TurtleAdventureGame_init 800 500 1)
       \<lparr>waypoint := \<lparr>x_pos = 100, y_pos = 100, is_active = True\<rparr>,
        player := \<lparr>player_speed = 180, turtle = \<lparr>xcor = 0, ycor = 100, orient = (1, 0)\<rparr>\<rparr>\<rparr>"

text \<open>The player at the centre of Home, (700, 250), with the waypoint at (100, 250),
  active or not.\<close>

definition home_scenario :: "bool \<Rightarrow> TurtleAdventureGame" where
  "home_scenario act =
     (TurtleAdventureGame_init 800 500 1)
       \<lparr>waypoint := \<lparr>x_pos = 100, y_pos = 250, is_active = act\<rparr>,
        player := \<lparr>player_speed = 180, turtle = \<lparr>xcor = 700, ycor = 250, orient = (1, 0)\<rparr>\<rparr>\<rparr>"

text \<open>A fencing enemy of radius 60 that stands on its target corner 0 of the Home at
  (700, 250) and turns in the direction \<^verbatim>\<open>False\<close>.\<close>

definition fencing_scenario :: FencingEnemy where
  "fencing_scenario =
     \<lparr>x_pos = 640, y_pos = 190, enemy_size = 20, color = ''red'', enemy_speed = 150,
      tar_corner = 0, dir = False, radius = 60\<rparr>"

text \<open>A fencing enemy of radius 60 that stands on its target corner 2, (760, 310), of
  the Home at (700, 250), with either direction of rotation.\<close>

definition fencing_on_corner_two :: "bool \<Rightarrow> FencingEnemy" where
  "fencing_on_corner_two d =
     \<lparr>x_pos = 760, y_pos = 310, enemy_size = 20, color = ''red'', enemy_speed = 150,
      tar_corner = 2, dir = d, radius = 60\<rparr>"

text \<open>Two spawn chains at level 1: \<^verbatim>\<open>start_game\<close> called twice, then the scheduler
  fires the oldest pending callback twice.\<close>

definition two_chains :: TurtleAdventureGame where
  "two_chains =
     handle (Timer 0 no_draws no_draws) (handle (Timer 0 no_draws no_draws)
       (handle (StartGame no_draws) (handle (StartGame no_draws)
          (TurtleAdventureGame_init 800 500 1))))"

text \<open>One spawn chain at level 1: the first call of \<^verbatim>\<open>create_enemy\<close> on the fresh
  session, then \<^verbatim>\<open>n\<close> firings of the scheduler's oldest pending callback.\<close>

fun spawn_chain :: "nat \<Rightarrow> nat \<Rightarrow> (nat \<Rightarrow> draws) \<Rightarrow> nat \<Rightarrow> TurtleAdventureGame" where
  "spawn_chain w h ds 0 = create_enemy (ds 0) (TurtleAdventureGame_init w h 1)"
| "spawn_chain w h ds (Suc n) =
     handle (Timer 0 (ds (Suc n)) (ds (Suc n))) (spawn_chain w h ds n)"

text \<open>A level won: the game starts, a click sets the waypoint on Home, one frame takes
  the player there, the next frame sees it at home, and the scheduler fires the callback
  of \<^verbatim>\<open>game_over_win\<close>.\<close>

definition won_level :: TurtleAdventureGame where
  "won_level =
     handle (Timer 1 no_draws no_draws)
       (handle (PlayerFrame (1 / 30))
          (handle (PlayerFrame (65 / 18))
             (handle (Click 700 250)
                (handle (StartGame no_draws) (TurtleAdventureGame_init 800 500 1)))))"

section \<open>Auxiliary facts\<close>

declare RandomWalkEnemy_update.simps [simp del]
declare FencingEnemy_update.simps [simp del]

lemma RandomWalkEnemy_update_null_time:
  "final (RandomWalkEnemy_update depth rnd 0 e g) = (e', g') \<Longrightarrow>
     x_pos e' = x_pos e \<and> y_pos e' = y_pos e"
  apply (subst (asm) RandomWalkEnemy_update.simps)
  apply (auto simp: Let_def not_sum_power2_lt_zero split: if_splits)
  done

lemma FencingEnemy_update_null_time:
  "final (FencingEnemy_update depth 0 e g) = (e', g') \<Longrightarrow>
     x_pos e' = x_pos e \<and> y_pos e' = y_pos e"
  apply (subst (asm) FencingEnemy_update.simps)
  apply (auto simp: Let_def not_sum_power2_lt_zero split: if_splits sum.splits prod.splits)
  done

lemma ChasingEnemy_update_null_time:
  "final (ChasingEnemy_update 0 e g) = (e', g') \<Longrightarrow>
     x_pos e' = x_pos e \<and> y_pos e' = y_pos e"
  by (auto simp: ChasingEnemy_update_def Let_def split: if_splits)

lemma Enemy_update_null_time:
  "position (fst (final (Enemy_update depth rnd 0 a g))) = position a"
proof (cases a)
  case (RandomWalk e)
  obtain e' g' where f: "final (RandomWalkEnemy_update depth rnd 0 e g) = (e', g')"
    by force
  from RandomWalkEnemy_update_null_time [OF f] f RandomWalk show ?thesis
    by (cases "RandomWalkEnemy_update depth rnd 0 e g") auto
next
  case (Chasing e)
  obtain e' g' where f: "final (ChasingEnemy_update 0 e g) = (e', g')"
    by force
  from ChasingEnemy_update_null_time [OF f] f Chasing show ?thesis
    by (cases "ChasingEnemy_update 0 e g") auto
next
  case (Fencing e)
  obtain e' g' where f: "final (FencingEnemy_update depth 0 e g) = (e', g')"
    by force
  from FencingEnemy_update_null_time [OF f] f Fencing show ?thesis
    by (cases "FencingEnemy_update depth 0 e g") auto
next
  case (Demo e)
  then show ?thesis by (simp add: DemoEnemy_update_def)
qed

lemma Player_update_null_time:
  "xcor (turtle (player (Player_update 0 g))) = xcor (turtle (player g)) \<and>
   ycor (turtle (player (Player_update 0 g))) = ycor (turtle (player g))"
  by (simp add: Player_update_def Let_def forward_def setheading_def game_over_win_def
      after_def create_text_def stop_def)

section \<open>Containment and collision\<close>

text \<open>
  C9. \<^verbatim>\<open>Home.contains(x, y)\<close> is the axis-aligned bounds test of the square of
  half-width \<^verbatim>\<open>size/2\<close> centred at Home's position, inclusive on all four edges:
  the point is contained exactly when both coordinates are within \<^verbatim>\<open>size/2\<close> of
  the centre, and every point of the left, right, top or bottom edge of the square is
  contained.
\<close>

theorem Home_contains_inclusive:
  "(contains h x y \<longleftrightarrow>
      \<bar>x - x_pos h\<bar> \<le> real_of_int (home_size h) / 2 \<and>
      \<bar>y - y_pos h\<bar> \<le> real_of_int (home_size h) / 2) \<and>
   (\<bar>y - y_pos h\<bar> \<le> real_of_int (home_size h) / 2 \<longrightarrow>
      contains h (x_pos h - real_of_int (home_size h) / 2) y \<and>
      contains h (x_pos h + real_of_int (home_size h) / 2) y) \<and>
   (\<bar>x - x_pos h\<bar> \<le> real_of_int (home_size h) / 2 \<longrightarrow>
      contains h x (y_pos h - real_of_int (home_size h) / 2) \<and>
      contains h x (y_pos h + real_of_int (home_size h) / 2))"
  unfolding contains_def Let_def abs_le_iff by argo

theorem Home_contains_inclusive_witness:
  "contains \<lparr>x_pos = 700, y_pos = 250, home_size = 20\<rparr> 690 255 \<and>
   contains \<lparr>x_pos = 700, y_pos = 250, home_size = 20\<rparr> 710 255 \<and>
   contains \<lparr>x_pos = 700, y_pos = 250, home_size = 20\<rparr> 693 240 \<and>
   contains \<lparr>x_pos = 700, y_pos = 250, home_size = 20\<rparr> 693 260 \<and>
   \<not> contains \<lparr>x_pos = 700, y_pos = 250, home_size = 20\<rparr> 711 255"
  using Home_contains_inclusive [of "\<lparr>x_pos = 700, y_pos = 250, home_size = 20\<rparr>" 690 255]
    Home_contains_inclusive [of "\<lparr>x_pos = 700, y_pos = 250, home_size = 20\<rparr>" 693 255]
    Home_contains_inclusive [of "\<lparr>x_pos = 700, y_pos = 250, home_size = 20\<rparr>" 711 255]
  by simp

text \<open>
  C8. \<^verbatim>\<open>hits_player()\<close> is true exactly when the squared distance between the enemy's
  position and the player's position is at most \<^verbatim>\<open>(size/2 + 9)\<^sup>2\<close>. It does not
  depend on the angle of approach: an enemy at distance \<^verbatim>\<open>r\<close> from the player in the
  direction of any angle \<^verbatim>\<open>a\<close> hits the player exactly when
  \<^verbatim>\<open>r\<^sup>2 \<le> (size/2 + 9)\<^sup>2\<close>.
\<close>

theorem hits_player_squared_distance:
  "(hits_player e g \<longleftrightarrow>
      (x_pos e - xcor (turtle (player g)))\<^sup>2 + (y_pos e - ycor (turtle (player g)))\<^sup>2
        \<le> (real_of_int (enemy_size e) / 2 + 9)\<^sup>2) \<and>
   (hits_player (e\<lparr>x_pos := xcor (turtle (player g)) + r * cos a,
                    y_pos := ycor (turtle (player g)) + r * sin a\<rparr>) g \<longleftrightarrow>
      r\<^sup>2 \<le> (real_of_int (enemy_size e) / 2 + 9)\<^sup>2)"
proof -
  have "r\<^sup>2 * (cos a)\<^sup>2 + r\<^sup>2 * (sin a)\<^sup>2 = r\<^sup>2 * ((cos a)\<^sup>2 + (sin a)\<^sup>2)"
    by (simp only: distrib_left)
  then have "r\<^sup>2 * (cos a)\<^sup>2 + r\<^sup>2 * (sin a)\<^sup>2 = r\<^sup>2"
    by (simp only: sin_cos_squared_add2 mult_1_right)
  then show ?thesis
    by (simp add: hits_player_def Let_def power_mult_distrib)
qed

section \<open>Null time\<close>

text \<open>
  C6. For every entity and every state, \<^verbatim>\<open>update(0)\<close> leaves the entity's position
  unchanged: the waypoint, the home, the player (whatever the waypoint's state) and an
  enemy of each of the four classes, also when the enemy's update ends by raising an
  exception.
\<close>

theorem update_null_time_keeps_position:
  "x_pos (Waypoint_update 0 w) = x_pos w \<and> y_pos (Waypoint_update 0 w) = y_pos w \<and>
   x_pos (Home_update 0 h) = x_pos h \<and> y_pos (Home_update 0 h) = y_pos h \<and>
   xcor (turtle (player (Player_update 0 g))) = xcor (turtle (player g)) \<and>
   ycor (turtle (player (Player_update 0 g))) = ycor (turtle (player g)) \<and>
   position (fst (final (Enemy_update depth rnd 0 a g))) = position a"
  using Player_update_null_time [of g] Enemy_update_null_time [of depth rnd a g]
  by (simp add: Waypoint_update_def Home_update_def)

section \<open>The chasing enemy on top of the player\<close>

text \<open>
  C1. When the chasing enemy's position coincides with the player's,
  \<^verbatim>\<open>ChasingEnemy.update\<close> should leave the position unchanged without raising. The
  method divides by the distance, which is zero there: it raises
  \<^verbatim>\<open>ZeroDivisionError\<close>, whatever the time step, before it assigns anything.
\<close>

theorem ChasingEnemy_update_coincident_raises:
  "ChasingEnemy_update dt
     (e\<lparr>x_pos := xcor (turtle (player g)), y_pos := ycor (turtle (player g))\<rparr>) g
   = Raised ZeroDivisionError
       (e\<lparr>x_pos := xcor (turtle (player g)), y_pos := ycor (turtle (player g))\<rparr>, g)"
  by (simp add: ChasingEnemy_update_def Let_def)

section \<open>Facts about the player's move\<close>

lemma move_distance:
  "distance (forward \<delta> (setheading (towards t x y) t)) x y = \<bar>distance t x y - \<delta>\<bar>"
proof (cases "distance t x y = 0")
  case True
  then have "x = xcor t" "y = ycor t"
    by (auto simp: distance_def real_sqrt_eq_zero_cancel_iff sum_power2_eq_zero_iff)
  then show ?thesis
    by (simp add: distance_def forward_def setheading_def towards_def)
next
  case False
  define dx where "dx = x - xcor t"
  define dy where "dy = y - ycor t"
  define d where "d = sqrt (dx\<^sup>2 + dy\<^sup>2)"
  have d: "d \<noteq> 0" "d = distance t x y"
    using False by (auto simp: d_def dx_def dy_def distance_def)
  have dd: "d\<^sup>2 = dx\<^sup>2 + dy\<^sup>2"
    by (simp add: d_def)
  have fx: "dx - dx / d * \<delta> = dx * (1 - \<delta> / d)"
    and fy: "dy - dy / d * \<delta> = dy * (1 - \<delta> / d)"
    by (simp_all add: right_diff_distrib)
  have "(dx - dx / d * \<delta>)\<^sup>2 + (dy - dy / d * \<delta>)\<^sup>2 = (dx\<^sup>2 + dy\<^sup>2) * (1 - \<delta> / d)\<^sup>2"
    unfolding fx fy by (simp add: power_mult_distrib distrib_right)
  also have "\<dots> = (d * (1 - \<delta> / d))\<^sup>2"
    by (simp add: dd [symmetric] power_mult_distrib)
  also have "d * (1 - \<delta> / d) = d - \<delta>"
    using d(1) by (simp add: algebra_simps)
  finally have sq: "(dx - dx / d * \<delta>)\<^sup>2 + (dy - dy / d * \<delta>)\<^sup>2 = (d - \<delta>)\<^sup>2" .
  have tw: "towards t x y = (dx / d, dy / d)"
    using d(1) by (simp add: towards_def Let_def dx_def dy_def d_def)
  have ex: "x - (xcor t + a) = dx - a" and ey: "y - (ycor t + b) = dy - b" for a b
    by (simp_all add: dx_def dy_def)
  have "distance (forward \<delta> (setheading (towards t x y) t)) x y
      = sqrt ((dx - dx / d * \<delta>)\<^sup>2 + (dy - dy / d * \<delta>)\<^sup>2)"
    by (simp add: distance_def forward_def setheading_def tw ex ey)
  also have "\<dots> = \<bar>d - \<delta>\<bar>"
    by (simp only: sq real_sqrt_abs)
  finally show ?thesis
    by (simp add: d(2))
qed

lemma distance_nonneg: "0 \<le> distance t x y"
  by (simp add: distance_def)

lemma game_over_win_fields:
  "player (game_over_win g) = player g"
  "waypoint (game_over_win g) = waypoint g"
  "home (game_over_win g) = home g"
  "level (game_over_win g) = level g"
  "enemies (game_over_win g) = enemies g"
  "enemy_generator (game_over_win g) = enemy_generator g"
  "is_running (game_over_win g) = False"
  "scheduled (game_over_win g) = scheduled g @ [(2000, WinMessageDone)]"
  "texts (game_over_win g) = texts g @ [''You Win'']"
  by (simp_all add: game_over_win_def after_def create_text_def stop_def)

lemma game_over_lose_fields:
  "level (game_over_lose g) = level g"
  "enemies (game_over_lose g) = enemies g"
  "enemy_generator (game_over_lose g) = enemy_generator g"
  "scheduled (game_over_lose g) = scheduled g"
  by (simp_all add: game_over_lose_def create_text_def stop_def)

lemma Player_update_active:
  assumes "is_active (waypoint g)"
  shows "turtle (player (Player_update dt g)) =
           forward (player_speed (player g) * dt)
             (setheading (towards (turtle (player g)) (x_pos (waypoint g)) (y_pos (waypoint g)))
                (turtle (player g)))"
    and "is_active (waypoint (Player_update dt g)) \<longleftrightarrow>
           \<not> distance (turtle (player (Player_update dt g)))
                 (x_pos (waypoint g)) (y_pos (waypoint g))
               \<le> player_speed (player g) * dt"
  using assms by (simp_all add: Player_update_def Let_def game_over_win_fields deactivate_def)

lemmas scenario_defs =
  Player_update_def TurtleAdventureGame_init_def Let_def contains_def towards_def
  setheading_def forward_def distance_def deactivate_def game_over_win_fields

section \<open>Player.update: arriving at the waypoint\<close>

text \<open>
  C2 (as stated, refuted). The specification says that an update with the waypoint active
  deactivates it exactly when the distance to the waypoint before the move is at most
  \<^verbatim>\<open>speed * dt\<close>. With the waypoint at (100, 100), the player at (0, 100), speed 180
  and \<^verbatim>\<open>dt = 1/2\<close>, the distance before the move, 100, exceeds the 90 units
  travelled, and the update deactivates the waypoint all the same.
\<close>

theorem Player_update_premove_counterexample:
  "is_active (waypoint waypoint_scenario) \<and>
   \<not> is_active (waypoint (Player_update (1 / 2) waypoint_scenario)) \<and>
   \<not> distance (turtle (player waypoint_scenario)) 100 100
        \<le> player_speed (player waypoint_scenario) * (1 / 2)"
  by (simp add: waypoint_scenario_def scenario_defs)

text \<open>
  C2 (amended). For every call of \<^verbatim>\<open>Player.update(dt)\<close> with the waypoint active, the
  player advances \<^verbatim>\<open>speed * dt\<close> along the direction to the waypoint, and the
  waypoint is deactivated if and only if the player's distance to the waypoint after the
  move is at most \<^verbatim>\<open>speed * dt\<close>, that is, if and only if the distance before the
  move is at most \<^verbatim>\<open>2 * speed * dt\<close>. In particular, with the waypoint at (100, 100),
  the player at (0, 100), speed 180 and \<^verbatim>\<open>dt = 1\<close>, the player advances exactly 180
  units, to (180, 100), and the waypoint is deactivated.
\<close>

theorem Player_update_waypoint_arrival:
  assumes "is_active (waypoint g)"
  shows "(\<not> is_active (waypoint (Player_update dt g)) \<longleftrightarrow>
            distance (turtle (player (Player_update dt g)))
                (x_pos (waypoint g)) (y_pos (waypoint g))
              \<le> player_speed (player g) * dt) \<and>
         (\<not> is_active (waypoint (Player_update dt g)) \<longleftrightarrow>
            distance (turtle (player g)) (x_pos (waypoint g)) (y_pos (waypoint g))
              \<le> 2 * (player_speed (player g) * dt)) \<and>
         xcor (turtle (player (Player_update dt g))) = xcor (turtle (player g)) +
            fst (towards (turtle (player g)) (x_pos (waypoint g)) (y_pos (waypoint g))) *
              (player_speed (player g) * dt) \<and>
         ycor (turtle (player (Player_update dt g))) = ycor (turtle (player g)) +
            snd (towards (turtle (player g)) (x_pos (waypoint g)) (y_pos (waypoint g))) *
              (player_speed (player g) * dt) \<and>
         xcor (turtle (player (Player_update 1 waypoint_scenario))) = 180 \<and>
         ycor (turtle (player (Player_update 1 waypoint_scenario))) = 100 \<and>
         \<not> is_active (waypoint (Player_update 1 waypoint_scenario))"
proof -
  let ?t = "turtle (player g)"
  let ?wx = "x_pos (waypoint g)" and ?wy = "y_pos (waypoint g)"
  let ?\<delta> = "player_speed (player g) * dt"
  note pu = Player_update_active [OF assms, of dt]
  have post: "distance (turtle (player (Player_update dt g))) ?wx ?wy
                = \<bar>distance ?t ?wx ?wy - ?\<delta>\<bar>"
    unfolding pu(1) by (rule move_distance)
  have a: "(\<not> is_active (waypoint (Player_update dt g))) \<longleftrightarrow>
             distance (turtle (player (Player_update dt g))) ?wx ?wy \<le> ?\<delta>"
    using pu(2) by simp
  have b: "\<bar>distance ?t ?wx ?wy - ?\<delta>\<bar> \<le> ?\<delta> \<longleftrightarrow> distance ?t ?wx ?wy \<le> 2 * ?\<delta>"
    using distance_nonneg [of ?t ?wx ?wy] by linarith
  have c: "xcor (turtle (player (Player_update dt g)))
             = xcor ?t + fst (towards ?t ?wx ?wy) * ?\<delta>"
    "ycor (turtle (player (Player_update dt g)))
             = ycor ?t + snd (towards ?t ?wx ?wy) * ?\<delta>"
    unfolding pu(1) by (simp_all add: forward_def setheading_def)
  have s: "xcor (turtle (player (Player_update 1 waypoint_scenario))) = 180 \<and>
           ycor (turtle (player (Player_update 1 waypoint_scenario))) = 100 \<and>
           \<not> is_active (waypoint (Player_update 1 waypoint_scenario))"
    by (simp add: waypoint_scenario_def scenario_defs)
  from a b c s post show ?thesis
    by simp
qed

theorem Player_update_waypoint_arrival_witness:
  "is_active (waypoint waypoint_scenario) \<and>
   \<not> is_active (waypoint (Player_update (1 / 2) waypoint_scenario)) \<and>
   distance (turtle (player waypoint_scenario)) 100 100 \<le> 2 * (180 * (1 / 2)) \<and>
   xcor (turtle (player (Player_update (1 / 2) waypoint_scenario))) = 90 \<and>
   ycor (turtle (player (Player_update (1 / 2) waypoint_scenario))) = 100 \<and>
   is_active (waypoint (Player_update (1 / 4) waypoint_scenario)) \<and>
   \<not> distance (turtle (player waypoint_scenario)) 100 100 \<le> 2 * (180 * (1 / 4))"
proof -
  have act: "is_active (waypoint waypoint_scenario)"
    by (simp add: waypoint_scenario_def)
  have pre: "distance (turtle (player waypoint_scenario)) 100 100 = 100"
    "x_pos (waypoint waypoint_scenario) = 100" "y_pos (waypoint waypoint_scenario) = 100"
    "player_speed (player waypoint_scenario) = 180"
    "xcor (turtle (player waypoint_scenario)) = 0"
    "ycor (turtle (player waypoint_scenario)) = 100"
    "towards (turtle (player waypoint_scenario)) 100 100 = (1, 0)"
    by (simp_all add: waypoint_scenario_def scenario_defs)
  show ?thesis
    using Player_update_waypoint_arrival [OF act, of "1 / 2"]
      Player_update_waypoint_arrival [OF act, of "1 / 4"] act
    by (simp add: pre)
qed

section \<open>Player.update: arriving home\<close>

text \<open>
  C3 (as stated, refuted). The specification says that an update entered with the player inside
  Home leaves the player's position unchanged whatever the waypoint's state. With the
  player at Home's centre (700, 250), the waypoint active at (100, 250), speed 180 and
  \<^verbatim>\<open>dt = 1\<close>, the update moves the player to (520, 250).
\<close>

theorem Player_update_home_counterexample:
  "contains (home (home_scenario True)) (xcor (turtle (player (home_scenario True))))
      (ycor (turtle (player (home_scenario True)))) \<and>
   is_active (waypoint (home_scenario True)) \<and>
   xcor (turtle (player (home_scenario True))) = 700 \<and>
   xcor (turtle (player (Player_update 1 (home_scenario True)))) = 520"
  by (simp add: home_scenario_def scenario_defs)

text \<open>
  C3 (amended). For every call of \<^verbatim>\<open>Player.update(dt)\<close> in which Home contains the
  player's position at entry, the update signals the session's win (it calls
  \<^verbatim>\<open>game_over_win\<close>: the frame loop is halted, the message is shown and the next game
  is scheduled after 2000 ms), and when the waypoint is inactive it does nothing else:
  the player's position is unchanged by that call.
\<close>

theorem Player_update_at_home:
  assumes "contains (home g) (xcor (turtle (player g))) (ycor (turtle (player g)))"
  shows "\<not> is_running (Player_update dt g) \<and>
         scheduled (Player_update dt g) = scheduled g @ [(2000, WinMessageDone)] \<and>
         texts (Player_update dt g) = texts g @ [''You Win''] \<and>
         (\<not> is_active (waypoint g) \<longrightarrow>
            Player_update dt g = game_over_win g \<and>
            turtle (player (Player_update dt g)) = turtle (player g))"
  using assms by (simp add: Player_update_def Let_def game_over_win_fields)

theorem Player_update_at_home_witness:
  "contains (home (home_scenario False)) (xcor (turtle (player (home_scenario False))))
      (ycor (turtle (player (home_scenario False)))) \<and>
   \<not> is_active (waypoint (home_scenario False)) \<and>
   \<not> is_running (Player_update 1 (home_scenario False)) \<and>
   scheduled (Player_update 1 (home_scenario False)) = [(2000, WinMessageDone)] \<and>
   xcor (turtle (player (Player_update 1 (home_scenario False)))) = 700 \<and>
   ycor (turtle (player (Player_update 1 (home_scenario False)))) = 250"
proof -
  have at_home: "contains (home (home_scenario False))
      (xcor (turtle (player (home_scenario False)))) (ycor (turtle (player (home_scenario False))))"
    by (simp add: home_scenario_def TurtleAdventureGame_init_def contains_def)
  have pre: "\<not> is_active (waypoint (home_scenario False))"
    "scheduled (home_scenario False) = []"
    "xcor (turtle (player (home_scenario False))) = 700"
    "ycor (turtle (player (home_scenario False))) = 250"
    by (simp_all add: home_scenario_def TurtleAdventureGame_init_def)
  show ?thesis
    using Player_update_at_home [OF at_home, of 1] at_home
    by (simp add: pre game_over_win_fields)
qed

section \<open>FencingEnemy.update: the patrol around Home\<close>

lemma corner_targets:
  "corner_target (e\<lparr>tar_corner := 0\<rparr>) g =
      Inr (x_pos (home g) - real_of_int (radius e), y_pos (home g) - real_of_int (radius e))"
  "corner_target (e\<lparr>tar_corner := 1\<rparr>) g =
      Inr (x_pos (home g) + real_of_int (radius e), y_pos (home g) - real_of_int (radius e))"
  "corner_target (e\<lparr>tar_corner := 2\<rparr>) g =
      Inr (x_pos (home g) + real_of_int (radius e), y_pos (home g) + real_of_int (radius e))"
  "corner_target (e\<lparr>tar_corner := 3\<rparr>) g =
      Inr (x_pos (home g) - real_of_int (radius e), y_pos (home g) + real_of_int (radius e))"
  by (simp_all add: corner_target_def tuple_get_def)

lemma FencingEnemy_update_arrival:
  assumes "corner_target e g = Inr (tx, ty)"
    and "(tx - x_pos e)\<^sup>2 + (ty - y_pos e)\<^sup>2 < dt * (enemy_speed e)\<^sup>2"
  shows "FencingEnemy_update (Suc m) dt e g =
           FencingEnemy_update m dt
             (e\<lparr>tar_corner := (tar_corner e + (if dir e then - 1 else 1)) mod 4\<rparr>) g"
  using assms by (simp add: FencingEnemy_update.simps [of _ dt e g] Let_def)

lemma FencingEnemy_update_limit:
  assumes "corner_target e g = Inr (tx, ty)"
    and "(tx - x_pos e)\<^sup>2 + (ty - y_pos e)\<^sup>2 < dt * (enemy_speed e)\<^sup>2"
  shows "FencingEnemy_update 0 dt e g =
           Raised RecursionError
             (e\<lparr>tar_corner := (tar_corner e + (if dir e then - 1 else 1)) mod 4\<rparr>, g)"
  using assms by (simp add: FencingEnemy_update.simps [of _ dt e g] Let_def)

lemma FencingEnemy_update_no_corner:
  "corner_target e g = Inl err \<Longrightarrow> FencingEnemy_update depth dt e g = Raised err (e, g)"
  by (simp add: FencingEnemy_update.simps [of _ dt e g])

lemma FencingEnemy_update_zero:
  assumes "corner_target e g = Inr (tx, ty)"
    and "\<not> (tx - x_pos e)\<^sup>2 + (ty - y_pos e)\<^sup>2 < dt * (enemy_speed e)\<^sup>2"
    and "(tx - x_pos e)\<^sup>2 + (ty - y_pos e)\<^sup>2 = 0"
  shows "FencingEnemy_update depth dt e g = Raised ZeroDivisionError (e, g)"
  using assms by (simp add: FencingEnemy_update.simps [of _ dt e g] Let_def)

lemma FencingEnemy_update_move:
  assumes "corner_target e g = Inr (tx, ty)"
    and "\<not> (tx - x_pos e)\<^sup>2 + (ty - y_pos e)\<^sup>2 < dt * (enemy_speed e)\<^sup>2"
    and "(tx - x_pos e)\<^sup>2 + (ty - y_pos e)\<^sup>2 \<noteq> 0"
  shows "FencingEnemy_update depth dt e g =
     (let dist = sqrt ((tx - x_pos e)\<^sup>2 + (ty - y_pos e)\<^sup>2);
          e2 = e\<lparr>x_pos := x_pos e + (tx - x_pos e) / dist * dt * enemy_speed e,
                 y_pos := y_pos e + (ty - y_pos e) / dist * dt * enemy_speed e\<rparr>
      in if hits_player e2 g then Returned (e2, game_over_lose g) else Returned (e2, g))"
  using assms by (simp add: FencingEnemy_update.simps [of _ dt e g] Let_def)

lemma FencingEnemy_update_approach:
  assumes "corner_target e g = Inr (tx, ty)"
    and "\<not> (tx - x_pos e)\<^sup>2 + (ty - y_pos e)\<^sup>2 < dt * (enemy_speed e)\<^sup>2"
    and "(tx - x_pos e)\<^sup>2 + (ty - y_pos e)\<^sup>2 \<noteq> 0"
  shows "tar_corner (fst (final (FencingEnemy_update depth dt e g))) = tar_corner e"
    and "sqrt ((tx - x_pos (fst (final (FencingEnemy_update depth dt e g))))\<^sup>2 +
               (ty - y_pos (fst (final (FencingEnemy_update depth dt e g))))\<^sup>2)
          = \<bar>sqrt ((tx - x_pos e)\<^sup>2 + (ty - y_pos e)\<^sup>2) - dt * enemy_speed e\<bar>"
proof -
  let ?d = "sqrt ((tx - x_pos e)\<^sup>2 + (ty - y_pos e)\<^sup>2)"
  let ?e2 = "e\<lparr>x_pos := x_pos e + (tx - x_pos e) / ?d * dt * enemy_speed e,
                 y_pos := y_pos e + (ty - y_pos e) / ?d * dt * enemy_speed e\<rparr>"
  have fin: "fst (final (FencingEnemy_update depth dt e g)) = ?e2"
    unfolding FencingEnemy_update_move [OF assms] by (simp add: Let_def)
  show "tar_corner (fst (final (FencingEnemy_update depth dt e g))) = tar_corner e"
    unfolding fin by simp
  let ?t = "\<lparr>xcor = x_pos e, ycor = y_pos e, orient = (1, 0)\<rparr>"
  have dne: "?d \<noteq> 0"
    using assms(3) by simp
  have "distance (forward (dt * enemy_speed e) (setheading (towards ?t tx ty) ?t)) tx ty
          = \<bar>distance ?t tx ty - dt * enemy_speed e\<bar>"
    by (rule move_distance)
  moreover have "distance ?t tx ty = ?d"
    by (simp add: distance_def)
  moreover have "distance (forward (dt * enemy_speed e) (setheading (towards ?t tx ty) ?t)) tx ty
     = sqrt ((tx - x_pos ?e2)\<^sup>2 + (ty - y_pos ?e2)\<^sup>2)"
  proof -
    have tw: "towards ?t tx ty = ((tx - x_pos e) / ?d, (ty - y_pos e) / ?d)"
      using dne by (simp add: towards_def Let_def)
    show ?thesis
      unfolding tw by (simp add: distance_def forward_def setheading_def mult.assoc)
  qed
  ultimately show "sqrt ((tx - x_pos (fst (final (FencingEnemy_update depth dt e g))))\<^sup>2 +
               (ty - y_pos (fst (final (FencingEnemy_update depth dt e g))))\<^sup>2)
          = \<bar>?d - dt * enemy_speed e\<bar>"
    unfolding fin by simp
qed

lemma FencingEnemy_update_keeps:
  "dir (fst (final (FencingEnemy_update depth dt e g))) = dir e \<and>
   radius (fst (final (FencingEnemy_update depth dt e g))) = radius e \<and>
   (0 \<le> tar_corner e \<and> tar_corner e < 4 \<longrightarrow>
      0 \<le> tar_corner (fst (final (FencingEnemy_update depth dt e g))) \<and>
      tar_corner (fst (final (FencingEnemy_update depth dt e g))) < 4)"
proof (induction depth arbitrary: e)
  case 0
  show ?case
    by (subst (1 2 3 4) FencingEnemy_update.simps)
      (auto simp: Let_def split: sum.splits prod.splits)
next
  case (Suc m)
  note ih = Suc [of "e\<lparr>tar_corner := (tar_corner e + (if dir e then - 1 else 1)) mod 4\<rparr>"]
  show ?case
  proof (cases "corner_target e g")
    case (Inl err)
    then show ?thesis
      by (simp add: FencingEnemy_update.simps [of _ dt e g])
  next
    case (Inr p)
    obtain tx ty where p: "p = (tx, ty)"
      by (cases p)
    show ?thesis
    proof (cases "(tx - x_pos e)\<^sup>2 + (ty - y_pos e)\<^sup>2 < dt * (enemy_speed e)\<^sup>2")
      case True
      have "FencingEnemy_update (Suc m) dt e g =
              FencingEnemy_update m dt
                (e\<lparr>tar_corner := (tar_corner e + (if dir e then - 1 else 1)) mod 4\<rparr>) g"
        using Inr p True by (rule_tac FencingEnemy_update_arrival) simp_all
      with ih show ?thesis
        by simp
    next
      case False
      with Inr p show ?thesis
        by (simp add: FencingEnemy_update.simps [of _ dt e g] Let_def)
    qed
  qed
qed

text \<open>
  C7. For every fencing enemy with radius \<^verbatim>\<open>r\<close>, the target for the corner index 0, 1,
  2, 3 is Home's position plus \<^verbatim>\<open>(-r,-r)\<close>, \<^verbatim>\<open>(+r,-r)\<close>, \<^verbatim>\<open>(+r,+r)\<close>,
  \<^verbatim>\<open>(-r,+r)\<close> in this order. On arrival (squared distance to the target below
  \<^verbatim>\<open>dt * speed\<^sup>2\<close>) the update is the update, for the same frame, of the enemy whose
  corner index has advanced by +1 (direction flag false) or -1 (direction flag true)
  modulo 4. The direction and the radius of the instance never change, and a corner
  index in 0..3 stays in 0..3. Off arrival the update heads for that target and keeps
  the corner index: it moves the enemy by \<^verbatim>\<open>dt * speed\<close> along the unit vector to the
  target, so that the distance to the target becomes the absolute difference of the old
  distance and \<^verbatim>\<open>dt * speed\<close>, then tests the collision with the player; at distance
  zero it raises \<^verbatim>\<open>ZeroDivisionError\<close> and changes nothing. On arrival with no nested
  call left it raises \<^verbatim>\<open>RecursionError\<close> with the corner index already advanced,
  and an index that selects no corner raises \<^verbatim>\<open>IndexError\<close>.
\<close>

theorem FencingEnemy_corner_patrol:
  "corner_target (e\<lparr>tar_corner := 0\<rparr>) g =
      Inr (x_pos (home g) - real_of_int (radius e), y_pos (home g) - real_of_int (radius e)) \<and>
   corner_target (e\<lparr>tar_corner := 1\<rparr>) g =
      Inr (x_pos (home g) + real_of_int (radius e), y_pos (home g) - real_of_int (radius e)) \<and>
   corner_target (e\<lparr>tar_corner := 2\<rparr>) g =
      Inr (x_pos (home g) + real_of_int (radius e), y_pos (home g) + real_of_int (radius e)) \<and>
   corner_target (e\<lparr>tar_corner := 3\<rparr>) g =
      Inr (x_pos (home g) - real_of_int (radius e), y_pos (home g) + real_of_int (radius e)) \<and>
   (corner_target e g = Inr (tx, ty) \<longrightarrow>
    (tx - x_pos e)\<^sup>2 + (ty - y_pos e)\<^sup>2 < dt * (enemy_speed e)\<^sup>2 \<longrightarrow>
      FencingEnemy_update (Suc m) dt e g =
        FencingEnemy_update m dt
          (e\<lparr>tar_corner := (tar_corner e + (if dir e then - 1 else 1)) mod 4\<rparr>) g) \<and>
   dir (fst (final (FencingEnemy_update depth dt e g))) = dir e \<and>
   radius (fst (final (FencingEnemy_update depth dt e g))) = radius e \<and>
   (0 \<le> tar_corner e \<and> tar_corner e < 4 \<longrightarrow>
      0 \<le> tar_corner (fst (final (FencingEnemy_update depth dt e g))) \<and>
      tar_corner (fst (final (FencingEnemy_update depth dt e g))) < 4) \<and>
   (corner_target e g = Inr (tx, ty) \<longrightarrow>
    \<not> (tx - x_pos e)\<^sup>2 + (ty - y_pos e)\<^sup>2 < dt * (enemy_speed e)\<^sup>2 \<longrightarrow>
    (tx - x_pos e)\<^sup>2 + (ty - y_pos e)\<^sup>2 \<noteq> 0 \<longrightarrow>
      FencingEnemy_update depth dt e g =
        (let dist = sqrt ((tx - x_pos e)\<^sup>2 + (ty - y_pos e)\<^sup>2);
             e2 = e\<lparr>x_pos := x_pos e + (tx - x_pos e) / dist * dt * enemy_speed e,
                    y_pos := y_pos e + (ty - y_pos e) / dist * dt * enemy_speed e\<rparr>
         in if hits_player e2 g then Returned (e2, game_over_lose g) else Returned (e2, g)) \<and>
      tar_corner (fst (final (FencingEnemy_update depth dt e g))) = tar_corner e \<and>
      sqrt ((tx - x_pos (fst (final (FencingEnemy_update depth dt e g))))\<^sup>2 +
            (ty - y_pos (fst (final (FencingEnemy_update depth dt e g))))\<^sup>2)
        = \<bar>sqrt ((tx - x_pos e)\<^sup>2 + (ty - y_pos e)\<^sup>2) - dt * enemy_speed e\<bar>) \<and>
   (corner_target e g = Inr (tx, ty) \<longrightarrow>
    \<not> (tx - x_pos e)\<^sup>2 + (ty - y_pos e)\<^sup>2 < dt * (enemy_speed e)\<^sup>2 \<longrightarrow>
    (tx - x_pos e)\<^sup>2 + (ty - y_pos e)\<^sup>2 = 0 \<longrightarrow>
      FencingEnemy_update depth dt e g = Raised ZeroDivisionError (e, g)) \<and>
   (corner_target e g = Inr (tx, ty) \<longrightarrow>
    (tx - x_pos e)\<^sup>2 + (ty - y_pos e)\<^sup>2 < dt * (enemy_speed e)\<^sup>2 \<longrightarrow>
      FencingEnemy_update 0 dt e g =
        Raised RecursionError
          (e\<lparr>tar_corner := (tar_corner e + (if dir e then - 1 else 1)) mod 4\<rparr>, g)) \<and>
   (corner_target e g = Inl err \<longrightarrow>
      FencingEnemy_update depth dt e g = Raised err (e, g))"
proof (intro conjI impI)
  show "corner_target (e\<lparr>tar_corner := 0\<rparr>) g =
      Inr (x_pos (home g) - real_of_int (radius e), y_pos (home g) - real_of_int (radius e))"
    by (rule corner_targets)
  show "corner_target (e\<lparr>tar_corner := 1\<rparr>) g =
      Inr (x_pos (home g) + real_of_int (radius e), y_pos (home g) - real_of_int (radius e))"
    by (rule corner_targets)
  show "corner_target (e\<lparr>tar_corner := 2\<rparr>) g =
      Inr (x_pos (home g) + real_of_int (radius e), y_pos (home g) + real_of_int (radius e))"
    by (rule corner_targets)
  show "corner_target (e\<lparr>tar_corner := 3\<rparr>) g =
      Inr (x_pos (home g) - real_of_int (radius e), y_pos (home g) + real_of_int (radius e))"
    by (rule corner_targets)
  show "dir (fst (final (FencingEnemy_update depth dt e g))) = dir e"
    and "radius (fst (final (FencingEnemy_update depth dt e g))) = radius e"
    using FencingEnemy_update_keeps [of depth dt e g] by simp_all
  show "0 \<le> tar_corner (fst (final (FencingEnemy_update depth dt e g)))"
    and "tar_corner (fst (final (FencingEnemy_update depth dt e g))) < 4"
    if "0 \<le> tar_corner e \<and> tar_corner e < 4"
    using that FencingEnemy_update_keeps [of depth dt e g] by simp_all
  show "FencingEnemy_update depth dt e g = Raised err (e, g)"
    if "corner_target e g = Inl err"
    using that by (rule FencingEnemy_update_no_corner)
next
  assume tgt: "corner_target e g = Inr (tx, ty)"
    and arr: "(tx - x_pos e)\<^sup>2 + (ty - y_pos e)\<^sup>2 < dt * (enemy_speed e)\<^sup>2"
  show "FencingEnemy_update (Suc m) dt e g =
        FencingEnemy_update m dt
          (e\<lparr>tar_corner := (tar_corner e + (if dir e then - 1 else 1)) mod 4\<rparr>) g"
    using tgt arr by (rule FencingEnemy_update_arrival)
next
  assume tgt: "corner_target e g = Inr (tx, ty)"
    and arr: "(tx - x_pos e)\<^sup>2 + (ty - y_pos e)\<^sup>2 < dt * (enemy_speed e)\<^sup>2"
  show "FencingEnemy_update 0 dt e g =
        Raised RecursionError
          (e\<lparr>tar_corner := (tar_corner e + (if dir e then - 1 else 1)) mod 4\<rparr>, g)"
    using tgt arr by (rule FencingEnemy_update_limit)
next
  assume tgt: "corner_target e g = Inr (tx, ty)"
    and far: "\<not> (tx - x_pos e)\<^sup>2 + (ty - y_pos e)\<^sup>2 < dt * (enemy_speed e)\<^sup>2"
    and zero: "(tx - x_pos e)\<^sup>2 + (ty - y_pos e)\<^sup>2 = 0"
  show "FencingEnemy_update depth dt e g = Raised ZeroDivisionError (e, g)"
    using tgt far zero by (rule FencingEnemy_update_zero)
next
  assume tgt: "corner_target e g = Inr (tx, ty)"
    and far: "\<not> (tx - x_pos e)\<^sup>2 + (ty - y_pos e)\<^sup>2 < dt * (enemy_speed e)\<^sup>2"
    and pos: "(tx - x_pos e)\<^sup>2 + (ty - y_pos e)\<^sup>2 \<noteq> 0"
  show "FencingEnemy_update depth dt e g =
        (let dist = sqrt ((tx - x_pos e)\<^sup>2 + (ty - y_pos e)\<^sup>2);
             e2 = e\<lparr>x_pos := x_pos e + (tx - x_pos e) / dist * dt * enemy_speed e,
                    y_pos := y_pos e + (ty - y_pos e) / dist * dt * enemy_speed e\<rparr>
         in if hits_player e2 g then Returned (e2, game_over_lose g) else Returned (e2, g))"
    using tgt far pos by (rule FencingEnemy_update_move)
  show "tar_corner (fst (final (FencingEnemy_update depth dt e g))) = tar_corner e"
    using tgt far pos by (rule FencingEnemy_update_approach)
  show "sqrt ((tx - x_pos (fst (final (FencingEnemy_update depth dt e g))))\<^sup>2 +
            (ty - y_pos (fst (final (FencingEnemy_update depth dt e g))))\<^sup>2)
        = \<bar>sqrt ((tx - x_pos e)\<^sup>2 + (ty - y_pos e)\<^sup>2) - dt * enemy_speed e\<bar>"
    using tgt far pos by (rule FencingEnemy_update_approach)
qed

lemma fencing_scenario_moves:
  "FencingEnemy_update 0 (1 / 30) (fencing_scenario\<lparr>tar_corner := 1\<rparr>)
     (TurtleAdventureGame_init 800 500 1) =
   Returned (fencing_scenario\<lparr>tar_corner := 1, x_pos := 645\<rparr>,
     TurtleAdventureGame_init 800 500 1)"
  by (simp add: FencingEnemy_update.simps Let_def fencing_scenario_def corner_target_def
      tuple_get_def TurtleAdventureGame_init_def hits_player_def)

lemma fencing_on_corner_two_moves:
  "FencingEnemy_update (Suc 0) (1 / 30) (fencing_on_corner_two False)
     (TurtleAdventureGame_init 800 500 1) =
   Returned ((fencing_on_corner_two False)\<lparr>tar_corner := 3, x_pos := 755\<rparr>,
     TurtleAdventureGame_init 800 500 1)"
  "FencingEnemy_update (Suc 0) (1 / 30) (fencing_on_corner_two True)
     (TurtleAdventureGame_init 800 500 1) =
   Returned ((fencing_on_corner_two True)\<lparr>tar_corner := 1, y_pos := 305\<rparr>,
     TurtleAdventureGame_init 800 500 1)"
  by (simp_all add: FencingEnemy_update.simps Let_def fencing_on_corner_two_def
      corner_target_def tuple_get_def TurtleAdventureGame_init_def hits_player_def)

theorem FencingEnemy_corner_patrol_witness:
  "corner_target fencing_scenario (TurtleAdventureGame_init 800 500 1) = Inr (640, 190) \<and>
   (640 - x_pos fencing_scenario)\<^sup>2 + (190 - y_pos fencing_scenario)\<^sup>2
     < (1 / 30) * (enemy_speed fencing_scenario)\<^sup>2 \<and>
   0 \<le> tar_corner fencing_scenario \<and> tar_corner fencing_scenario < 4 \<and>
   FencingEnemy_update (Suc 0) (1 / 30) fencing_scenario (TurtleAdventureGame_init 800 500 1) =
     Returned (fencing_scenario\<lparr>tar_corner := 1, x_pos := 645\<rparr>,
       TurtleAdventureGame_init 800 500 1) \<and>
   tar_corner (fst (final (FencingEnemy_update (Suc 0) (1 / 30) fencing_scenario
     (TurtleAdventureGame_init 800 500 1)))) < 4 \<and>
   FencingEnemy_update 0 (1 / 30) fencing_scenario (TurtleAdventureGame_init 800 500 1) =
     Raised RecursionError (fencing_scenario\<lparr>tar_corner := 1\<rparr>,
       TurtleAdventureGame_init 800 500 1) \<and>
   corner_target (fencing_scenario\<lparr>tar_corner := 1\<rparr>) (TurtleAdventureGame_init 800 500 1)
     = Inr (760, 190) \<and>
   \<not> (760 - x_pos fencing_scenario)\<^sup>2 + (190 - y_pos fencing_scenario)\<^sup>2
       < (1 / 30) * (enemy_speed fencing_scenario)\<^sup>2 \<and>
   (760 - x_pos fencing_scenario)\<^sup>2 + (190 - y_pos fencing_scenario)\<^sup>2 \<noteq> 0 \<and>
   tar_corner (fst (final (FencingEnemy_update 0 (1 / 30) (fencing_scenario\<lparr>tar_corner := 1\<rparr>)
     (TurtleAdventureGame_init 800 500 1)))) = 1 \<and>
   x_pos (fst (final (FencingEnemy_update 0 (1 / 30) (fencing_scenario\<lparr>tar_corner := 1\<rparr>)
     (TurtleAdventureGame_init 800 500 1)))) = 645 \<and>
   \<not> (640 - x_pos fencing_scenario)\<^sup>2 + (190 - y_pos fencing_scenario)\<^sup>2
       < 0 * (enemy_speed fencing_scenario)\<^sup>2 \<and>
   (640 - x_pos fencing_scenario)\<^sup>2 + (190 - y_pos fencing_scenario)\<^sup>2 = 0 \<and>
   FencingEnemy_update 5 0 fencing_scenario (TurtleAdventureGame_init 800 500 1) =
     Raised ZeroDivisionError (fencing_scenario, TurtleAdventureGame_init 800 500 1) \<and>
   corner_target (fencing_scenario\<lparr>tar_corner := 7\<rparr>) (TurtleAdventureGame_init 800 500 1)
     = Inl IndexError \<and>
   FencingEnemy_update 5 (1 / 30) (fencing_scenario\<lparr>tar_corner := 7\<rparr>)
       (TurtleAdventureGame_init 800 500 1) =
     Raised IndexError (fencing_scenario\<lparr>tar_corner := 7\<rparr>,
       TurtleAdventureGame_init 800 500 1) \<and>
   FencingEnemy_update (Suc 0) (1 / 30) (fencing_on_corner_two False)
       (TurtleAdventureGame_init 800 500 1) =
     Returned ((fencing_on_corner_two False)\<lparr>tar_corner := 3, x_pos := 755\<rparr>,
       TurtleAdventureGame_init 800 500 1) \<and>
   FencingEnemy_update (Suc 0) (1 / 30) (fencing_on_corner_two True)
       (TurtleAdventureGame_init 800 500 1) =
     Returned ((fencing_on_corner_two True)\<lparr>tar_corner := 1, y_pos := 305\<rparr>,
       TurtleAdventureGame_init 800 500 1)"
proof -
  let ?G = "TurtleAdventureGame_init 800 500 1"
  let ?e1 = "fencing_scenario\<lparr>tar_corner := 1\<rparr>"
  let ?e7 = "fencing_scenario\<lparr>tar_corner := 7\<rparr>"
  have tgt: "corner_target fencing_scenario ?G = Inr (640, 190)"
    by (simp add: fencing_scenario_def corner_target_def tuple_get_def
        TurtleAdventureGame_init_def)
  have tgt1: "corner_target ?e1 ?G = Inr (760, 190)"
    by (simp add: fencing_scenario_def corner_target_def tuple_get_def
        TurtleAdventureGame_init_def)
  have tgt7: "corner_target ?e7 ?G = Inl IndexError"
    by (simp add: fencing_scenario_def corner_target_def tuple_get_def
        TurtleAdventureGame_init_def)
  have pre: "x_pos fencing_scenario = 640" "y_pos fencing_scenario = 190"
    "enemy_speed fencing_scenario = 150" "tar_corner fencing_scenario = 0"
    "\<not> dir fencing_scenario"
    by (simp_all add: fencing_scenario_def)
  have first: "corner_target fencing_scenario ?G = Inr (640, 190) \<and>
     (640 - x_pos fencing_scenario)\<^sup>2 + (190 - y_pos fencing_scenario)\<^sup>2
       < (1 / 30) * (enemy_speed fencing_scenario)\<^sup>2 \<and>
     0 \<le> tar_corner fencing_scenario \<and> tar_corner fencing_scenario < 4 \<and>
     FencingEnemy_update (Suc 0) (1 / 30) fencing_scenario ?G =
       Returned (fencing_scenario\<lparr>tar_corner := 1, x_pos := 645\<rparr>, ?G) \<and>
     tar_corner (fst (final (FencingEnemy_update (Suc 0) (1 / 30) fencing_scenario ?G))) < 4"
    using FencingEnemy_corner_patrol [of fencing_scenario ?G 640 190 "1 / 30" 0 "Suc 0"
        IndexError] fencing_scenario_moves
    by (simp add: tgt pre)
  have limit: "FencingEnemy_update 0 (1 / 30) fencing_scenario ?G =
       Raised RecursionError (?e1, ?G)"
    using FencingEnemy_corner_patrol [of fencing_scenario ?G 640 190 "1 / 30" 0 0 IndexError]
    by (simp add: tgt pre)
  have far: "\<not> (760 - x_pos fencing_scenario)\<^sup>2 + (190 - y_pos fencing_scenario)\<^sup>2
         < (1 / 30) * (enemy_speed fencing_scenario)\<^sup>2"
    "(760 - x_pos fencing_scenario)\<^sup>2 + (190 - y_pos fencing_scenario)\<^sup>2 \<noteq> 0"
    by (simp_all add: pre)
  have far1: "\<not> (760 - x_pos ?e1)\<^sup>2 + (190 - y_pos ?e1)\<^sup>2 < (1 / 30) * (enemy_speed ?e1)\<^sup>2"
    "(760 - x_pos ?e1)\<^sup>2 + (190 - y_pos ?e1)\<^sup>2 \<noteq> 0"
    by (simp_all add: pre)
  have "tar_corner (fst (final (FencingEnemy_update 0 (1 / 30) ?e1 ?G))) = tar_corner ?e1"
    using FencingEnemy_corner_patrol [of ?e1 ?G 760 190 "1 / 30" 0 0 IndexError] tgt1 far1
    by blast
  then have kept: "tar_corner (fst (final (FencingEnemy_update 0 (1 / 30) ?e1 ?G))) = 1"
    by simp
  have moved: "x_pos (fst (final (FencingEnemy_update 0 (1 / 30) ?e1 ?G))) = 645"
    by (simp add: fencing_scenario_moves)
  have still: "\<not> (640 - x_pos fencing_scenario)\<^sup>2 + (190 - y_pos fencing_scenario)\<^sup>2
         < 0 * (enemy_speed fencing_scenario)\<^sup>2"
    "(640 - x_pos fencing_scenario)\<^sup>2 + (190 - y_pos fencing_scenario)\<^sup>2 = 0"
    by (simp_all add: pre)
  have zero: "FencingEnemy_update 5 0 fencing_scenario ?G =
       Raised ZeroDivisionError (fencing_scenario, ?G)"
    using FencingEnemy_corner_patrol [of fencing_scenario ?G 640 190 0 0 5 IndexError] still tgt
    by blast
  have none: "FencingEnemy_update 5 (1 / 30) ?e7 ?G = Raised IndexError (?e7, ?G)"
    using FencingEnemy_corner_patrol [of ?e7 ?G 0 0 "1 / 30" 0 5 IndexError] tgt7
    by blast
  show ?thesis
    using first limit tgt1 far kept moved still zero tgt7 none fencing_on_corner_two_moves
    by simp
qed

section \<open>Facts about the session\<close>

lemma create_enemy_fields:
  "level (create_enemy d g) = level g"
  "enemy_generator (create_enemy d g) = enemy_generator g"
  "player (create_enemy d g) = player g"
  "waypoint (create_enemy d g) = waypoint g"
  "home (create_enemy d g) = home g"
  "enemies (create_enemy d g) =
     (if 3 * generator_level (enemy_generator g) \<le> int (length (enemies g)) then enemies g
      else enemies g @ [new_enemy g d])"
  "scheduled (create_enemy d g) =
     (if 3 * generator_level (enemy_generator g) \<le> int (length (enemies g)) then scheduled g
      else scheduled g @ [(3000 div (3 * generator_level (enemy_generator g)), CreateEnemy)])"
  by (simp_all add: create_enemy_def Let_def after_def add_enemy_def)

lemma create_enemy_invariant:
  "session_invariant lvl g \<Longrightarrow> session_invariant lvl (create_enemy d g)"
  by (auto simp: session_invariant_def create_enemy_fields)

lemma start_game_invariant:
  "session_invariant lvl g \<Longrightarrow> session_invariant lvl (start_game d g)"
  by (auto simp: session_invariant_def start_game_def Let_def start_def create_enemy_fields)

lemma start_game_level:
  "level (start_game d g) = level g"
  "enemy_generator (start_game d g) = enemy_generator g"
  by (simp_all add: start_game_def Let_def start_def create_enemy_fields)

lemma new_game_level:
  "level (new_game d1 d2 g) = level g + 1"
  "generator_level (enemy_generator (new_game d1 d2 g)) = level g + 1"
  by (simp_all add: new_game_def Let_def start_game_level create_enemy_fields)

lemma new_game_invariant:
  "0 \<le> lvl \<Longrightarrow> session_invariant lvl g \<Longrightarrow> session_invariant lvl (new_game d1 d2 g)"
  by (auto simp: session_invariant_def new_game_def Let_def start_game_def start_def
      create_enemy_fields)

lemma new_game_spawns:
  "0 \<le> level g \<Longrightarrow> length (enemies (new_game d1 d2 g)) = 2"
  by (simp add: new_game_def Let_def start_game_def start_def create_enemy_fields)

lemma Player_update_fields:
  "level (Player_update dt g) = level g"
  "enemy_generator (Player_update dt g) = enemy_generator g"
  "enemies (Player_update dt g) = enemies g"
  by (simp_all add: Player_update_def Let_def game_over_win_fields)

lemma RandomWalkEnemy_update_game:
  "snd (final (RandomWalkEnemy_update depth rnd dt e g)) = g \<or>
   snd (final (RandomWalkEnemy_update depth rnd dt e g)) = game_over_lose g"
proof (induction depth arbitrary: e)
  case 0
  show ?case
    by (subst (1 2) RandomWalkEnemy_update.simps) (auto simp: Let_def)
next
  case (Suc m)
  have "snd (final (RandomWalkEnemy_update m rnd dt e' g)) \<noteq> game_over_lose g \<Longrightarrow>
        snd (final (RandomWalkEnemy_update m rnd dt e' g)) = g" for e'
    using Suc [of e'] by blast
  then show ?case
    by (subst (1 2) RandomWalkEnemy_update.simps) (auto simp: Let_def)
qed

lemma FencingEnemy_update_game:
  "snd (final (FencingEnemy_update depth dt e g)) = g \<or>
   snd (final (FencingEnemy_update depth dt e g)) = game_over_lose g"
proof (induction depth arbitrary: e)
  case 0
  show ?case
    by (subst (1 2) FencingEnemy_update.simps)
      (auto simp: Let_def split: sum.splits prod.splits)
next
  case (Suc m)
  have "snd (final (FencingEnemy_update m dt e' g)) \<noteq> game_over_lose g \<Longrightarrow>
        snd (final (FencingEnemy_update m dt e' g)) = g" for e'
    using Suc [of e'] by blast
  then show ?case
    by (subst (1 2) FencingEnemy_update.simps)
      (auto simp: Let_def split: sum.splits prod.splits)
qed

lemma as_enemy_game: "snd (final (as_enemy C r)) = snd (final r)"
  by (cases r) auto

lemma Enemy_update_game:
  "snd (final (Enemy_update depth rnd dt a g)) = g \<or>
   snd (final (Enemy_update depth rnd dt a g)) = game_over_lose g"
  using RandomWalkEnemy_update_game FencingEnemy_update_game
  by (cases a) (auto simp: as_enemy_game ChasingEnemy_update_def DemoEnemy_update_def Let_def)

lemma Enemy_update_fields:
  "level (snd (final (Enemy_update depth rnd dt a g))) = level g"
  "enemy_generator (snd (final (Enemy_update depth rnd dt a g))) = enemy_generator g"
  "enemies (snd (final (Enemy_update depth rnd dt a g))) = enemies g"
  using Enemy_update_game [of depth rnd dt a g] by (auto simp: game_over_lose_fields)

lemma handle_EnemyFrame_fields:
  "level (handle (EnemyFrame i depth rnd dt) g) = level g"
  "enemy_generator (handle (EnemyFrame i depth rnd dt) g) = enemy_generator g"
  "length (enemies (handle (EnemyFrame i depth rnd dt) g)) = length (enemies g)"
  using Enemy_update_fields [of depth rnd dt "enemies g ! i" g]
  by (auto split: prod.splits)

lemma handle_invariant:
  assumes "0 \<le> lvl" "session_invariant lvl g"
  shows "session_invariant lvl (handle ev g)"
proof (cases ev)
  case (Click x y)
  with assms show ?thesis
    by (simp add: session_invariant_def)
next
  case (StartGame d)
  with assms show ?thesis
    by (simp add: start_game_invariant)
next
  case (PlayerFrame dt)
  with assms show ?thesis
    by (simp add: session_invariant_def Player_update_fields)
next
  case (EnemyFrame i depth rnd dt)
  with assms show ?thesis
    unfolding session_invariant_def EnemyFrame handle_EnemyFrame_fields by simp
next
  case (Timer k d1 d2)
  have "session_invariant lvl (g\<lparr>scheduled := s\<rparr>)" for s
    using assms by (simp add: session_invariant_def)
  moreover have "session_invariant lvl (g'\<lparr>texts := s\<rparr>)" if "session_invariant lvl g'" for s g'
    using that by (simp add: session_invariant_def)
  ultimately show ?thesis
    using assms Timer
    by (auto simp: run_callback_def create_enemy_invariant new_game_invariant
        split: callback.splits)
qed

lemma reachable_invariant:
  "reachable w h lvl g \<Longrightarrow> 0 \<le> lvl \<Longrightarrow> session_invariant lvl g"
proof (induction rule: reachable.induct)
  case (constructed w h lvl)
  then show ?case
    by (simp add: session_invariant_def TurtleAdventureGame_init_def)
next
  case (handled w h lvl g ev)
  then show ?case
    by (simp add: handle_invariant)
qed

lemma handle_level:
  "level g \<le> level (handle ev g) \<and> level (handle ev g) \<le> level g + 1"
proof (cases ev)
  case (EnemyFrame i depth rnd dt)
  then show ?thesis
    unfolding EnemyFrame handle_EnemyFrame_fields by simp
next
  case (Timer k d1 d2)
  then show ?thesis
    by (auto simp: run_callback_def create_enemy_fields new_game_level split: callback.splits)
qed (simp_all add: start_game_level Player_update_fields)

lemma handle_mirror:
  assumes "generator_level (enemy_generator g) = level g"
  shows "generator_level (enemy_generator (handle ev g)) = level (handle ev g)"
proof (cases ev)
  case (EnemyFrame i depth rnd dt)
  with assms show ?thesis
    unfolding EnemyFrame handle_EnemyFrame_fields by simp
next
  case (Timer k d1 d2)
  with assms show ?thesis
    by (auto simp: run_callback_def create_enemy_fields new_game_level split: callback.splits)
qed (simp_all add: assms start_game_level Player_update_fields)

lemma reachable_level:
  "reachable w h lvl g \<Longrightarrow>
     lvl \<le> level g \<and> generator_level (enemy_generator g) = level g"
proof (induction rule: reachable.induct)
  case (constructed w h lvl)
  show ?case
    by (simp add: TurtleAdventureGame_init_def)
next
  case (handled w h lvl g ev)
  with handle_level [of g ev] handle_mirror [of g ev] show ?case
    by simp
qed

lemma two_chains_reachable: "reachable 800 500 1 two_chains"
  unfolding two_chains_def by (intro reachable.intros)

lemma two_chains_state:
  "length (enemies two_chains) = 3 \<and> level two_chains = 1 \<and>
   generator_level (enemy_generator two_chains) = 1 \<and>
   scheduled two_chains = [(1000, CreateEnemy)]"
  by (simp add: two_chains_def run_callback_def start_game_def Let_def start_def
      create_enemy_fields TurtleAdventureGame_init_def)

lemma spawn_chain_steps:
  "length (enemies (spawn_chain w h ds 0)) = 1 \<and>
   scheduled (spawn_chain w h ds 0) = [(1000, CreateEnemy)]"
  "length (enemies (spawn_chain w h ds 1)) = 2 \<and>
   scheduled (spawn_chain w h ds 1) = [(1000, CreateEnemy)]"
  "length (enemies (spawn_chain w h ds 2)) = 3 \<and>
   scheduled (spawn_chain w h ds 2) = [(1000, CreateEnemy)]"
  "spawn_chain w h ds 3 = (spawn_chain w h ds 2)\<lparr>scheduled := []\<rparr>"
     apply (simp_all add: numeral_2_eq_2 numeral_3_eq_3 run_callback_def
      create_enemy_fields TurtleAdventureGame_init_def)
  apply (simp add: create_enemy_def Let_def after_def add_enemy_def)
  done

lemma spawn_chain_ends: "spawn_chain w h ds (3 + n) = spawn_chain w h ds 3"
proof (induction n)
  case 0
  show ?case
    by simp
next
  case (Suc n)
  have idle: "scheduled (spawn_chain w h ds 3) = []"
    by (simp add: spawn_chain_steps(4))
  have "spawn_chain w h ds (3 + Suc n) =
          handle (Timer 0 (ds (Suc (3 + n))) (ds (Suc (3 + n)))) (spawn_chain w h ds (3 + n))"
    by (simp only: add_Suc_right spawn_chain.simps)
  also have "\<dots> = spawn_chain w h ds 3"
    unfolding Suc using idle by simp
  finally show ?case .
qed

lemma won_level_reachable: "reachable 800 500 1 won_level"
  unfolding won_level_def by (intro reachable.intros)

lemma won_level_state:
  "level won_level = 2 \<and> length (enemies won_level) = 2"
  by (simp add: won_level_def run_callback_def start_game_def Let_def start_def
      create_enemy_fields TurtleAdventureGame_init_def Player_update_def activate_def
      deactivate_def contains_def towards_def setheading_def forward_def distance_def
      setx_def sety_def game_over_win_fields new_game_def)

section \<open>The spawner's capacity\<close>

text \<open>
  C4. In every reachable state of a session constructed at a level that is not negative,
  the length of the enemy collection is at most \<^verbatim>\<open>3 * level\<close>, and the generator's
  level is the session's. \<^verbatim>\<open>create_enemy\<close> changes nothing (adds no enemy, schedules
  nothing) when the enemy count is at least \<^verbatim>\<open>3 * level\<close>, and below that capacity
  it adds exactly one enemy and schedules exactly one further call. The reachable states
  include those where several spawn chains are pending together.
\<close>

theorem enemy_count_within_capacity:
  "(reachable w h lvl g \<longrightarrow> 0 \<le> lvl \<longrightarrow>
      int (length (enemies g)) \<le> 3 * level g \<and>
      generator_level (enemy_generator g) = level g) \<and>
   (3 * generator_level (enemy_generator g) \<le> int (length (enemies g)) \<longrightarrow>
      create_enemy d g = g) \<and>
   (int (length (enemies g)) < 3 * generator_level (enemy_generator g) \<longrightarrow>
      enemies (create_enemy d g) = enemies g @ [new_enemy g d] \<and>
      scheduled (create_enemy d g) =
        scheduled g @ [(3000 div (3 * generator_level (enemy_generator g)), CreateEnemy)])"
  using reachable_invariant [of w h lvl g]
  by (auto simp: session_invariant_def create_enemy_fields) (simp add: create_enemy_def)

theorem enemy_count_within_capacity_witness:
  "reachable 800 500 1 two_chains \<and> (0::int) \<le> 1 \<and>
   int (length (enemies two_chains)) \<le> 3 * level two_chains \<and>
   length (enemies two_chains) = 3 \<and>
   3 * generator_level (enemy_generator two_chains) \<le> int (length (enemies two_chains)) \<and>
   create_enemy no_draws two_chains = two_chains \<and>
   int (length (enemies (TurtleAdventureGame_init 800 500 1)))
     < 3 * generator_level (enemy_generator (TurtleAdventureGame_init 800 500 1)) \<and>
   length (enemies (create_enemy no_draws (TurtleAdventureGame_init 800 500 1))) = 1"
  using enemy_count_within_capacity [of 800 500 1 two_chains no_draws]
    enemy_count_within_capacity [of 800 500 1 "TurtleAdventureGame_init 800 500 1" no_draws]
    two_chains_reachable two_chains_state
  by (simp add: TurtleAdventureGame_init_def)

section \<open>The spawn chain at level 1\<close>

text \<open>
  C5 (as stated, refuted). The specification says that at level 1 the call of \<^verbatim>\<open>create_enemy\<close>
  that adds the third enemy schedules no further call of itself. After the second
  firing of the chain there are three enemies, and a call of \<^verbatim>\<open>create_enemy\<close> is
  pending with a delay of 1000 ms.
\<close>

theorem spawn_chain_fourth_call_counterexample:
  "length (enemies (spawn_chain 800 500 (\<lambda>n. no_draws) 1)) = 2 \<and>
   length (enemies (spawn_chain 800 500 (\<lambda>n. no_draws) 2)) = 3 \<and>
   scheduled (spawn_chain 800 500 (\<lambda>n. no_draws) 2) = [(1000, CreateEnemy)]"
  using spawn_chain_steps [of 800 500 "\<lambda>n. no_draws"] by simp

text \<open>
  C5 (amended). At level 1 (capacity 3), the spawn chain that starts from one call of
  \<^verbatim>\<open>create_enemy\<close> spawns exactly 3 enemies. The third call, which adds the third
  enemy, still schedules a fourth; the fourth call adds no enemy and schedules nothing,
  so the chain ends there: the state differs from the one after the third call only by
  the empty schedule, and nothing changes afterwards.
\<close>

theorem spawn_chain_level_one:
  "length (enemies (spawn_chain w h ds 0)) = 1 \<and>
   length (enemies (spawn_chain w h ds 1)) = 2 \<and>
   length (enemies (spawn_chain w h ds 2)) = 3 \<and>
   scheduled (spawn_chain w h ds 2) = [(1000, CreateEnemy)] \<and>
   spawn_chain w h ds 3 = (spawn_chain w h ds 2)\<lparr>scheduled := []\<rparr> \<and>
   length (enemies (spawn_chain w h ds (3 + n))) = 3 \<and>
   scheduled (spawn_chain w h ds (3 + n)) = []"
  unfolding spawn_chain_ends using spawn_chain_steps [of w h ds] by simp

section \<open>The level\<close>

text \<open>
  C10. The session's level never decreases. The constructor sets it, and the
  generator's level with it. \<^verbatim>\<open>new_game\<close> increments it by exactly 1 and copies the
  new value to the generator before it spawns: it is the spawning (\<^verbatim>\<open>create_enemy\<close>,
  then \<^verbatim>\<open>start_game\<close>) of the state whose two levels are already incremented, so that
  from a level that is not negative it always spawns two enemies. No other operation
  modifies the level: every event leaves it unchanged or increments it by 1, and in
  every reachable state the level is at least the constructor's and the generator's
  level equals it.
\<close>

theorem level_nondecreasing:
  "level (TurtleAdventureGame_init w h lvl) = lvl \<and>
   generator_level (enemy_generator (TurtleAdventureGame_init w h lvl)) = lvl \<and>
   level (new_game d1 d2 g) = level g + 1 \<and>
   generator_level (enemy_generator (new_game d1 d2 g)) = level (new_game d1 d2 g) \<and>
   new_game d1 d2 g =
     start_game d2 (create_enemy d1
       (g\<lparr>level := level g + 1,
          enemy_generator := (enemy_generator g)\<lparr>generator_level := level g + 1\<rparr>,
          enemies := []\<rparr>)) \<and>
   (0 \<le> level g \<longrightarrow> length (enemies (new_game d1 d2 g)) = 2) \<and>
   level (start_game d g) = level g \<and>
   level (create_enemy d g) = level g \<and>
   level (add_enemy a g) = level g \<and>
   level (game_over_win g) = level g \<and>
   level (game_over_lose g) = level g \<and>
   level (Player_update dt g) = level g \<and>
   level (snd (final (Enemy_update depth rnd dt a g))) = level g \<and>
   level g \<le> level (handle ev g) \<and> level (handle ev g) \<le> level g + 1 \<and>
   (reachable w h lvl g \<longrightarrow>
      lvl \<le> level g \<and> generator_level (enemy_generator g) = level g)"
proof -
  have "new_game d1 d2 g =
     start_game d2 (create_enemy d1
       (g\<lparr>level := level g + 1,
          enemy_generator := (enemy_generator g)\<lparr>generator_level := level g + 1\<rparr>,
          enemies := []\<rparr>))"
    by (simp add: new_game_def Let_def)
  then show ?thesis
    using handle_level [of g ev] reachable_level [of w h lvl g] new_game_spawns [of g d1 d2]
    by (simp add: TurtleAdventureGame_init_def new_game_level start_game_level
        create_enemy_fields add_enemy_def game_over_win_fields game_over_lose_fields
        Player_update_fields Enemy_update_fields)
qed

theorem level_nondecreasing_witness:
  "reachable 800 500 1 won_level \<and> (1::int) \<le> level won_level \<and> level won_level = 2 \<and>
   generator_level (enemy_generator won_level) = 2 \<and>
   (0::int) \<le> level (TurtleAdventureGame_init 800 500 0) \<and>
   length (enemies (new_game no_draws no_draws (TurtleAdventureGame_init 800 500 0))) = 2"
proof -
  have fresh: "(0::int) \<le> level (TurtleAdventureGame_init 800 500 0)"
    by (simp add: TurtleAdventureGame_init_def)
  have a: "(1::int) \<le> level won_level \<and>
           generator_level (enemy_generator won_level) = level won_level"
    using level_nondecreasing [of 800 500 1 no_draws no_draws won_level no_draws
        "Demo \<lparr>x_pos = 0, y_pos = 0, enemy_size = 15, color = ''red'', enemy_speed = 100\<rparr>"
        0 0 "\<lambda>n. (0, 0)" "Click 0 0"] won_level_reachable
    by blast
  have b: "length (enemies (new_game no_draws no_draws (TurtleAdventureGame_init 800 500 0))) = 2"
    using level_nondecreasing [of 800 500 0 no_draws no_draws "TurtleAdventureGame_init 800 500 0"
        no_draws
        "Demo \<lparr>x_pos = 0, y_pos = 0, enemy_size = 15, color = ''red'', enemy_speed = 100\<rparr>"
        0 0 "\<lambda>n. (0, 0)" "Click 0 0"] fresh
    by blast
  show ?thesis
    using a b fresh won_level_reachable won_level_state by simp
qed

end
